theory Spec2Isabelle
  imports Main "HOL-Library.AList" "HOL-Library.Sublist"
begin

section \<open>Python values, exceptions and data frames\<close>

text \<open>
  The records that travel through the pipeline are JSON documents decoded by Python.
  \<open>PNaN\<close> is the missing-value marker that pandas puts into a cell with no value; no
  other floating-point number is needed by the functions modelled here, so JSON numbers
  are integers.  A dict is an association list read with \<open>map_of\<close> and written with
  \<open>AList.update\<close> (replace in place, or append a new key).
\<close>

datatype pyval =
    PNone
  | PNaN
  | PBool bool
  | PInt int
  | PStr string
  | PList "pyval list"
  | PDict "(string \<times> pyval) list"

datatype exn =
    AttributeError
  | TypeError
  | ValueError
  | KeyError
  | JSONDecodeError
  | ConnectionError
  | DatabaseError
  | RuntimeError

type_synonym row = "(string \<times> pyval) list"

text \<open>Python truthiness (\<open>if x:\<close>, \<open>not x\<close>).\<close>

fun truthy :: "pyval \<Rightarrow> bool" where
  "truthy PNone = False"
| "truthy PNaN = True"
| "truthy (PBool b) = b"
| "truthy (PInt n) = (n \<noteq> 0)"
| "truthy (PStr s) = (s \<noteq> [])"
| "truthy (PList l) = (l \<noteq> [])"
| "truthy (PDict d) = (d \<noteq> [])"

text \<open>\<open>d.get(k, default)\<close> on a dict.\<close>

definition dict_get :: "row \<Rightarrow> string \<Rightarrow> pyval \<Rightarrow> pyval" where
  "dict_get d k dflt = (case map_of d k of None \<Rightarrow> dflt | Some v \<Rightarrow> v)"

text \<open>
  A pandas DataFrame: its column labels and its rows.  \<open>DataFrame rs\<close> is
  \<open>pd.DataFrame(list_of_dicts)\<close>: the columns are the keys in order of first appearance
  and a row without a key gets NaN there.  \<open>empty_frame\<close> is \<open>pd.DataFrame()\<close>.
\<close>

record dataframe =
  df_columns :: "string list"
  df_rows :: "row list"

definition empty_frame :: dataframe where
  "empty_frame = \<lparr>df_columns = [], df_rows = []\<rparr>"

definition cell :: "row \<Rightarrow> string \<Rightarrow> pyval" where
  "cell r c = (case map_of r c of None \<Rightarrow> PNaN | Some v \<Rightarrow> v)"

definition first_seen :: "'a list \<Rightarrow> 'a list" where
  "first_seen xs = rev (remdups (rev xs))"

definition DataFrame :: "row list \<Rightarrow> dataframe" where
  "DataFrame rs =
     (let cols = first_seen (concat (map (map fst) rs))
      in \<lparr>df_columns = cols, df_rows = map (\<lambda>r. map (\<lambda>c. (c, cell r c)) cols) rs\<rparr>)"

text \<open>\<open>df.empty\<close>: some axis has length 0.  \<open>len(df)\<close>: the number of rows.\<close>

definition df_empty :: "dataframe \<Rightarrow> bool" where
  "df_empty df = (df_columns df = [] \<or> df_rows df = [])"

definition len_df :: "dataframe \<Rightarrow> nat" where
  "len_df df = length (df_rows df)"

text \<open>\<open>df[c] = ...\<close>: every row gets a value in column \<open>c\<close>, computed from the row.\<close>

definition assign_column :: "string \<Rightarrow> (row \<Rightarrow> pyval) \<Rightarrow> dataframe \<Rightarrow> dataframe" where
  "assign_column c f df =
     \<lparr>df_columns = (if c \<in> set (df_columns df) then df_columns df else df_columns df @ [c]),
      df_rows = map (\<lambda>r. AList.update c (f r) r) (df_rows df)\<rparr>"

definition isnull :: "pyval \<Rightarrow> bool" where
  "isnull v = (v = PNone \<or> v = PNaN)"

text \<open>\<open>df[col].isnull().sum()\<close> and \<open>[col for col in required if col not in df.columns]\<close>.\<close>

definition null_count :: "dataframe \<Rightarrow> string \<Rightarrow> nat" where
  "null_count df c = length (filter (\<lambda>r. isnull (cell r c)) (df_rows df))"

definition missing_columns :: "string list \<Rightarrow> dataframe \<Rightarrow> string list" where
  "missing_columns required df = filter (\<lambda>c. c \<notin> set (df_columns df)) required"

section \<open>MISA CRM loader (src/loaders/misa\_crm\_loader.py)\<close>

text \<open>
  The database is an abstract state \<open>'db\<close>.  What pandas and pyodbc do to it is given by
  the loader's environment: \<open>to_sql\<close> is \<open>df.to_sql\<close>, \<open>pyodbc_columns\<close>
  is the connection plus the INFORMATION\_SCHEMA query of the fallback path,
  \<open>pyodbc_executemany\<close> is one \<open>cursor.executemany\<close> with its commit.  Each may raise.
\<close>

record 'db misa_loader =
  table_mappings :: "(string \<times> string) list"
  to_sql :: "dataframe \<Rightarrow> string \<Rightarrow> string \<Rightarrow> string \<Rightarrow> 'db \<Rightarrow> exn + 'db"
  pyodbc_columns :: "string \<Rightarrow> string \<Rightarrow> 'db \<Rightarrow> exn + string list"
  pyodbc_executemany :: "string \<Rightarrow> string \<Rightarrow> string list \<Rightarrow> pyval list list \<Rightarrow> 'db \<Rightarrow> exn + 'db"

fun split_on :: "char \<Rightarrow> string \<Rightarrow> string list" where
  "split_on c [] = [[]]"
| "split_on c (x # xs) =
     (if x = c then [] # split_on c xs
      else (case split_on c xs of [] \<Rightarrow> [[x]] | p # ps \<Rightarrow> (x # p) # ps))"

definition get_table_info :: "string \<Rightarrow> string \<times> string" where
  "get_table_info table_full_name =
     (case split_on CHR ''.'' table_full_name of
        [schema, table] \<Rightarrow> (schema, table)
      | _ \<Rightarrow> (''staging'', table_full_name))"

function chunks :: "nat \<Rightarrow> 'a list \<Rightarrow> 'a list list" where
  "chunks n xs = (if n = 0 \<or> xs = [] then [] else take n xs # chunks n (drop n xs))"
  by pat_completeness auto
termination
  by (relation "measure (\<lambda>(n, xs). length xs)") auto

declare chunks.simps [simp del]

definition row_data :: "string list \<Rightarrow> row \<Rightarrow> pyval list" where
  "row_data cols r = map (\<lambda>c. if isnull (cell r c) then PNone else cell r c) cols"

fun insert_batches ::
  "'db misa_loader \<Rightarrow> string \<times> string \<Rightarrow> string list \<Rightarrow> row list list \<Rightarrow> 'db \<Rightarrow> bool \<times> 'db" where
  "insert_batches L info cols [] db = (True, db)"
| "insert_batches L info cols (batch # rest) db =
     (case pyodbc_executemany L (fst info) (snd info) cols (map (row_data cols) batch) db of
        Inl e \<Rightarrow> (False, db)
      | Inr db' \<Rightarrow> insert_batches L info cols rest db')"

definition load_with_pyodbc ::
  "'db misa_loader \<Rightarrow> dataframe \<Rightarrow> string \<Rightarrow> 'db \<Rightarrow> bool \<times> 'db" where
  "load_with_pyodbc L df table_full_name db =
     (let info = get_table_info table_full_name in
      case pyodbc_columns L (fst info) (snd info) db of
        Inl e \<Rightarrow> (False, db)
      | Inr db_columns \<Rightarrow>
          (let matching_columns = filter (\<lambda>col. col \<in> set (df_columns df)) db_columns in
           if matching_columns = [] then (False, db)
           else insert_batches L info matching_columns (chunks 1000 (df_rows df)) db))"

definition load_dataframe_to_staging ::
  "'db misa_loader \<Rightarrow> dataframe \<Rightarrow> string \<Rightarrow> string \<Rightarrow> 'db \<Rightarrow> bool \<times> 'db" where
  "load_dataframe_to_staging L df endpoint if_exists db =
     (if df_empty df then (True, db)
      else (case map_of (table_mappings L) endpoint of
              None \<Rightarrow> (False, db)
            | Some table_full_name \<Rightarrow>
                (let info = get_table_info table_full_name in
                 case to_sql L df (snd info) (fst info) if_exists db of
                   Inr db' \<Rightarrow> (True, db')
                 | Inl e \<Rightarrow> load_with_pyodbc L df table_full_name db)))"

section \<open>TikTok Shop loader (src/loaders/tiktok\_shop\_staging\_loader.py)\<close>

text \<open>
  \<open>db_truncate_table\<close> and \<open>db_insert_dataframe\<close> are the methods of the database manager
  (src/utils/database.py); both catch every exception themselves and answer with a bool.
  \<open>any_negative\<close> is pandas' \<open>(df[col] < 0).any()\<close> on a column, which raises when a
  cell cannot be compared with a number; \<open>py_str\<close> is Python's \<open>str\<close>.
\<close>

record 'db tiktok_loader =
  staging_schema :: string
  staging_table :: string
  db_truncate_table :: "string \<Rightarrow> string \<Rightarrow> 'db \<Rightarrow> bool \<times> 'db"
  db_insert_dataframe :: "dataframe \<Rightarrow> string \<Rightarrow> string \<Rightarrow> string \<Rightarrow> 'db \<Rightarrow> bool \<times> 'db"
  any_negative :: "pyval list \<Rightarrow> exn + bool"
  py_str :: "pyval \<Rightarrow> string"

definition loader_validate_dataframe :: "'db tiktok_loader \<Rightarrow> dataframe \<Rightarrow> bool" where
  "loader_validate_dataframe L df =
     (if missing_columns [''order_id'', ''etl_batch_id'', ''etl_created_at'', ''etl_updated_at''] df \<noteq> []
      then False
      else if null_count df ''order_id'' > 0 then False
      else if ''item_quantity'' \<in> set (df_columns df)
      then (case any_negative L (map (\<lambda>r. cell r ''item_quantity'') (df_rows df)) of
              Inl e \<Rightarrow> False
            | Inr b \<Rightarrow> True)
      else True)"

definition string_columns :: "(string \<times> nat) list" where
  "string_columns =
     [(''order_id'', 50), (''order_status'', 50), (''currency'', 10), (''item_id'', 50),
      (''item_sku_id'', 50), (''item_name'', 500), (''item_sku_name'', 500)]"

definition prepare_dataframe_for_load :: "'db tiktok_loader \<Rightarrow> dataframe \<Rightarrow> dataframe" where
  "prepare_dataframe_for_load L df =
     (let truncated =
            fold (\<lambda>(col, max_length) d.
                    if col \<in> set (df_columns d)
                    then assign_column col (\<lambda>r. PStr (take max_length (py_str L (cell r col)))) d
                    else d)
                 string_columns df
      in truncated\<lparr>df_rows := map (map (\<lambda>(c, v). (c, if isnull v then PNone else v)))
                                   (df_rows truncated)\<rparr>)"

definition load_orders ::
  "'db tiktok_loader \<Rightarrow> dataframe \<Rightarrow> string \<Rightarrow> bool \<Rightarrow> 'db \<Rightarrow> bool \<times> 'db" where
  "load_orders L df load_mode validate_before_load db =
     (if df_empty df then (True, db)
      else if validate_before_load \<and> \<not> loader_validate_dataframe L df then (False, db)
      else
        (let df_prepared = prepare_dataframe_for_load L df in
         if load_mode = ''truncate_insert''
         then (case db_truncate_table L (staging_table L) (staging_schema L) db of
                 (ok, db1) \<Rightarrow>
                   if \<not> ok then (False, db1)
                   else db_insert_dataframe L df_prepared (staging_table L) (staging_schema L)
                          ''append'' db1)
         else if load_mode = ''replace'' \<or> load_mode = ''append''
         then db_insert_dataframe L df_prepared (staging_table L) (staging_schema L) load_mode db
         else (False, db)))"

definition load_incremental_orders ::
  "'db tiktok_loader \<Rightarrow> dataframe \<Rightarrow> 'db \<Rightarrow> bool \<times> 'db" where
  "load_incremental_orders L df db =
     (if df_empty df then (True, db) else load_orders L df ''append'' True db)"

text \<open>
  A concrete environment for running the loaders: the database is the list of rows of the
  one staging table, a pandas write appends to it and the pyodbc path is unavailable.
\<close>

definition demo_misa_loader :: "row list misa_loader" where
  "demo_misa_loader =
     \<lparr>table_mappings = [(''customers'', ''staging.misa_customers'')],
      to_sql = (\<lambda>df table schema if_exists db. Inr (db @ df_rows df)),
      pyodbc_columns = (\<lambda>schema table db. Inl DatabaseError),
      pyodbc_executemany = (\<lambda>schema table cols data db. Inl DatabaseError)\<rparr>"

definition demo_tiktok_loader :: "row list tiktok_loader" where
  "demo_tiktok_loader =
     \<lparr>staging_schema = ''staging'',
      staging_table = ''tiktok_shop_order_detail'',
      db_truncate_table = (\<lambda>table schema db. (True, [])),
      db_insert_dataframe = (\<lambda>df table schema if_exists db. (True, db @ df_rows df)),
      any_negative = (\<lambda>vs. Inr False),
      py_str = (\<lambda>v. case v of PStr s \<Rightarrow> s | _ \<Rightarrow> ''None'')\<rparr>"

section \<open>MISA CRM extractor (src/extractors/misa\_crm\_extractor.py)\<close>

text \<open>
  The outside world of the extractor.  \<open>jwt.decode\<close> raises or yields the claims with their
  optional \<open>exp\<close>.  A POST to the token endpoint raises, or answers with a status code and a
  body: a body that is not a usable JSON object, or one with the truthiness of its
  \<open>success\<close> entry and its \<open>data\<close> entry if present.  A data request raises, or answers with
  a status code and the result of \<open>response.json()\<close> (None when the body is not JSON).
  \<open>datetime.fromisoformat\<close> raises, or yields a naive or a timezone-aware time; times are
  seconds since the epoch.
\<close>

datatype jwt_result = JwtError | JwtClaims "int option"

datatype token_body = BodyInvalid | Body bool "string option"

datatype token_reply = PostRaises | PostReply nat token_body

datatype http_reply = RequestRaises | Reply nat "pyval option"

datatype parsed_datetime = Unparseable | Naive int | Aware int

text \<open>
  The settings the extractor reads (those named \<open>misa_crm_*\<close> are not defined in
  config/settings.py and are parameters here, like the rest), together with the behaviour
  of the network: the reply to the \<open>k\<close>-th token request, the reply to the \<open>k\<close>-th data
  request as a function of what is sent, and the two library functions.
\<close>

record request =
  req_url :: string
  req_params :: "(string \<times> int) list"
  req_token :: string

record misa_env =
  base_url :: string
  api_retry_attempts :: nat
  api_retry_delay :: nat
  etl_rate_limit_delay :: nat
  misa_crm_token_refresh_buffer :: int
  misa_crm_page_size :: int
  misa_crm_max_page_size :: int
  misa_crm_incremental_lookback_hours :: int
  post_account :: "nat \<Rightarrow> token_reply"
  http_request :: "nat \<Rightarrow> request \<Rightarrow> http_reply"
  jwt_decode :: "string \<Rightarrow> jwt_result"
  fromisoformat :: "string \<Rightarrow> parsed_datetime"

text \<open>
  The state that the extractor reads and changes: the wall clock, the cached token and its
  expiry, the number of requests sent so far, and the durations passed to \<open>time.sleep\<close>.
  The clock moves by sleeping only.
\<close>

record world =
  clock :: int
  access_token :: "string option"
  token_expires_at :: "int option"
  token_requests :: nat
  data_requests :: nat
  sleeps :: "nat list"

definition sleep :: "nat \<Rightarrow> world \<Rightarrow> world" where
  "sleep d w = w\<lparr>clock := clock w + int d, sleeps := sleeps w @ [d]\<rparr>"

definition endpoints :: "(string \<times> string) list" where
  "endpoints = [(''customers'', ''/Customers''), (''sale_orders'', ''/SaleOrders''),
                (''contacts'', ''/Contacts''), (''stocks'', ''/Stocks''),
                (''products'', ''/Products'')]"

definition decode_token_expiry :: "misa_env \<Rightarrow> string \<Rightarrow> world \<Rightarrow> int" where
  "decode_token_expiry E token w =
     (case jwt_decode E token of
        JwtClaims (Some exp_timestamp) \<Rightarrow>
          if exp_timestamp \<noteq> 0 then exp_timestamp else clock w + 3600
      | JwtClaims None \<Rightarrow> clock w + 3600
      | JwtError \<Rightarrow> clock w + 3600)"

definition is_token_expired :: "misa_env \<Rightarrow> world \<Rightarrow> bool" where
  "is_token_expired E w =
     (case access_token w of
        None \<Rightarrow> True
      | Some token \<Rightarrow>
          if token = [] then True
          else (case token_expires_at w of
                  None \<Rightarrow> True
                | Some expires_at \<Rightarrow> clock w + misa_crm_token_refresh_buffer E \<ge> expires_at))"

definition get_access_token :: "misa_env \<Rightarrow> bool \<Rightarrow> world \<Rightarrow> string option \<times> world" where
  "get_access_token E force_refresh w =
     (if \<not> force_refresh \<and> \<not> is_token_expired E w then (access_token w, w)
      else
        (let w1 = w\<lparr>token_requests := Suc (token_requests w)\<rparr> in
         case post_account E (token_requests w) of
           PostRaises \<Rightarrow> (None, w1)
         | PostReply status_code body \<Rightarrow>
             if status_code = 200
             then (case body of
                     BodyInvalid \<Rightarrow> (None, w1)
                   | Body success_flag data \<Rightarrow>
                       (case data of
                          None \<Rightarrow> (None, w1)
                        | Some token \<Rightarrow>
                            if success_flag
                            then (Some token,
                                  w1\<lparr>access_token := Some token,
                                     token_expires_at := Some (decode_token_expiry E token w1)\<rparr>)
                            else (None, w1)))
             else (None, w1)))"

definition get_headers :: "misa_env \<Rightarrow> world \<Rightarrow> (exn + string) \<times> world" where
  "get_headers E w =
     (case get_access_token E False w of
        (None, w1) \<Rightarrow> (Inl ValueError, w1)
      | (Some token, w1) \<Rightarrow> if token = [] then (Inl ValueError, w1) else (Inr token, w1))"

definition send_request ::
  "misa_env \<Rightarrow> string \<Rightarrow> (string \<times> int) list \<Rightarrow> string \<Rightarrow> world \<Rightarrow> http_reply \<times> world" where
  "send_request E url params token w =
     (http_request E (data_requests w) \<lparr>req_url = url, req_params = params, req_token = token\<rparr>,
      w\<lparr>data_requests := Suc (data_requests w)\<rparr>)"

text \<open>
  \<open>_make_request_with_retry\<close>: the loop \<open>for attempt in range(api_retry_attempts)\<close> runs
  over the list of attempt numbers.  A raised exception (from \<open>_get_headers\<close> or from the
  request) sleeps \<open>api_retry_delay * (attempt + 1)\<close> and continues while
  \<open>attempt < api_retry_attempts - 1\<close>, else returns None; a 401 forces a token refresh and
  continues, sleeping \<open>api_retry_delay\<close> unless it was the last attempt; any other status
  returns None at once.  The result is None or the decoded body of a 200 response.
\<close>

fun retry_loop ::
  "misa_env \<Rightarrow> string \<Rightarrow> (string \<times> int) list \<Rightarrow> nat list \<Rightarrow> world \<Rightarrow> pyval option option \<times> world" where
  "retry_loop E url params [] w = (None, w)"
| "retry_loop E url params (attempt # rest) w =
     (case get_headers E w of
        (Inl e, w1) \<Rightarrow>
          if int attempt < int (api_retry_attempts E) - 1
          then retry_loop E url params rest (sleep (api_retry_delay E * (attempt + 1)) w1)
          else (None, w1)
      | (Inr token, w1) \<Rightarrow>
          (case send_request E url params token w1 of
             (RequestRaises, w2) \<Rightarrow>
               if int attempt < int (api_retry_attempts E) - 1
               then retry_loop E url params rest (sleep (api_retry_delay E * (attempt + 1)) w2)
               else (None, w2)
           | (Reply status_code body, w2) \<Rightarrow>
               if status_code = 200 then (Some body, w2)
               else if status_code = 401
               then (case get_access_token E True w2 of
                       (refreshed, w3) \<Rightarrow>
                         if int attempt < int (api_retry_attempts E) - 1
                         then retry_loop E url params rest (sleep (api_retry_delay E) w3)
                         else retry_loop E url params rest w3)
               else (None, w2)))"

definition make_request_with_retry ::
  "misa_env \<Rightarrow> string \<Rightarrow> (string \<times> int) list \<Rightarrow> world \<Rightarrow> pyval option option \<times> world" where
  "make_request_with_retry E url params w = retry_loop E url params [0..<api_retry_attempts E] w"

definition extract_endpoint_data ::
  "misa_env \<Rightarrow> string \<Rightarrow> nat \<Rightarrow> int \<Rightarrow> world \<Rightarrow> (exn + pyval) \<times> world" where
  "extract_endpoint_data E endpoint_name page page_size w =
     (case map_of endpoints endpoint_name of
        None \<Rightarrow> (Inr PNone, w)
      | Some path \<Rightarrow>
          (let url = base_url E @ path;
               request_params = (if endpoint_name = ''stocks'' then []
                                 else [(''page'', int page),
                                       (''pageSize'', min page_size (misa_crm_max_page_size E))])
           in case make_request_with_retry E url request_params w of
                (None, w1) \<Rightarrow> (Inr PNone, w1)
              | (Some None, w1) \<Rightarrow> (Inl JSONDecodeError, w1)
              | (Some (Some result), w1) \<Rightarrow> (Inr result, w1)))"

text \<open>
  The tests of the paging loop on a page result: \<open>not result\<close>, \<open>'data' not in result\<close>,
  \<open>not result['data']\<close>, then \<open>all_data.extend(batch_data)\<close> and \<open>len(batch_data)\<close>.
  \<open>page_data\<close> is None when the loop breaks with "no more data", the records of the page
  otherwise, or the exception that one of these operations raises on a value of the wrong
  shape.
\<close>

definition contains_data :: "pyval \<Rightarrow> exn + bool" where
  "contains_data result =
     (case result of
        PDict d \<Rightarrow> Inr (map_of d ''data'' \<noteq> None)
      | PList l \<Rightarrow> Inr (PStr ''data'' \<in> set l)
      | PStr s \<Rightarrow> Inr (sublist ''data'' s)
      | _ \<Rightarrow> Inl TypeError)"

definition subscript_data :: "pyval \<Rightarrow> exn + pyval" where
  "subscript_data result =
     (case result of
        PDict d \<Rightarrow> (case map_of d ''data'' of None \<Rightarrow> Inl KeyError | Some v \<Rightarrow> Inr v)
      | _ \<Rightarrow> Inl TypeError)"

definition elements :: "pyval \<Rightarrow> exn + pyval list" where
  "elements v =
     (case v of
        PList l \<Rightarrow> Inr l
      | PDict d \<Rightarrow> Inr (map (\<lambda>(k, x). PStr k) d)
      | PStr s \<Rightarrow> Inr (map (\<lambda>c. PStr [c]) s)
      | _ \<Rightarrow> Inl TypeError)"

definition page_data :: "pyval \<Rightarrow> exn + pyval list option" where
  "page_data result =
     (if \<not> truthy result then Inr None
      else (case contains_data result of
              Inl e \<Rightarrow> Inl e
            | Inr present \<Rightarrow>
                if \<not> present then Inr None
                else (case subscript_data result of
                        Inl e \<Rightarrow> Inl e
                      | Inr batch_data \<Rightarrow>
                          if \<not> truthy batch_data then Inr None
                          else (case elements batch_data of
                                  Inl e \<Rightarrow> Inl e
                                | Inr recs \<Rightarrow> Inr (Some recs)))))"

definition limit_reached :: "int option \<Rightarrow> nat \<Rightarrow> bool" where
  "limit_reached max_pages page =
     (case max_pages of None \<Rightarrow> False | Some m \<Rightarrow> m \<noteq> 0 \<and> int page \<ge> m)"

text \<open>
  The \<open>while True\<close> loop of \<open>extract_all_data_from_endpoint\<close>, with the call of
  \<open>self.extract_endpoint_data\<close> as \<open>fetch\<close> and the rate-limit sleep as \<open>pause\<close>.  The loop
  need not terminate, so its value is an option: None when it runs forever.
\<close>

partial_function (option) extract_loop ::
  "(nat \<Rightarrow> 'w \<Rightarrow> (exn + pyval) \<times> 'w) \<Rightarrow> ('w \<Rightarrow> 'w) \<Rightarrow> int \<Rightarrow> int option \<Rightarrow> nat \<Rightarrow> pyval list \<Rightarrow> 'w
     \<Rightarrow> ((exn + pyval list) \<times> 'w) option" where
  "extract_loop fetch pause page_size max_pages page all_data w =
     (if limit_reached max_pages page then Some (Inr all_data, w)
      else (case fetch page w of
              (Inl e, w1) \<Rightarrow> Some (Inl e, w1)
            | (Inr result, w1) \<Rightarrow>
                (case page_data result of
                   Inl e \<Rightarrow> Some (Inl e, w1)
                 | Inr None \<Rightarrow> Some (Inr all_data, w1)
                 | Inr (Some batch_data) \<Rightarrow>
                     if int (length batch_data) < page_size
                     then Some (Inr (all_data @ batch_data), w1)
                     else extract_loop fetch pause page_size max_pages (page + 1)
                            (all_data @ batch_data) (pause w1))))"

definition extract_all_data_from_endpoint ::
  "misa_env \<Rightarrow> string \<Rightarrow> int option \<Rightarrow> world \<Rightarrow> ((exn + pyval list) \<times> world) option" where
  "extract_all_data_from_endpoint E endpoint_name max_pages w =
     extract_loop (\<lambda>page. extract_endpoint_data E endpoint_name page (misa_crm_page_size E))
       (sleep (etl_rate_limit_delay E)) (misa_crm_page_size E) max_pages 0 [] w"




definition page_records :: "pyval \<Rightarrow> pyval list" where
  "page_records result =
     (case result of
        PDict d \<Rightarrow> (case map_of d ''data'' of Some (PList l) \<Rightarrow> l | _ \<Rightarrow> [])
      | _ \<Rightarrow> [])"





text \<open>
  \<open>extract_incremental_data\<close>.  \<open>includes_record\<close> is the body of the filter loop:
  \<open>record.get\<close> is outside the \<open>try\<close>; inside it, \<open>.replace\<close> on a value that is not a
  string, a parse error, and the comparison of a timezone-aware time with the naive
  \<open>cutoff_time\<close> (a TypeError in Python) all end in the bare \<open>except\<close>, which keeps the
  record.
\<close>

definition replace_Z :: "string \<Rightarrow> string" where
  "replace_Z s = concat (map (\<lambda>c. if c = CHR ''Z'' then ''+00:00'' else [c]) s)"

definition includes_record :: "misa_env \<Rightarrow> int \<Rightarrow> pyval \<Rightarrow> exn + bool" where
  "includes_record E cutoff_time record =
     (case record of
        PDict d \<Rightarrow>
          (let modified_date_str = dict_get d ''modified_date'' PNone in
           if truthy modified_date_str
           then (case modified_date_str of
                   PStr s \<Rightarrow>
                     (case fromisoformat E (replace_Z s) of
                        Unparseable \<Rightarrow> Inr True
                      | Naive modified_date \<Rightarrow> Inr (modified_date \<ge> cutoff_time)
                      | Aware modified_date \<Rightarrow> Inr True)
                 | _ \<Rightarrow> Inr True)
           else Inr True)
      | _ \<Rightarrow> Inl AttributeError)"

fun filter_modified :: "misa_env \<Rightarrow> int \<Rightarrow> pyval list \<Rightarrow> exn + pyval list" where
  "filter_modified E cutoff_time [] = Inr []"
| "filter_modified E cutoff_time (record # rest) =
     (case includes_record E cutoff_time record of
        Inl e \<Rightarrow> Inl e
      | Inr keep \<Rightarrow>
          (case filter_modified E cutoff_time rest of
             Inl e \<Rightarrow> Inl e
           | Inr filtered_data \<Rightarrow> Inr (if keep then record # filtered_data else filtered_data)))"

definition extract_incremental_data ::
  "misa_env \<Rightarrow> string \<Rightarrow> int option \<Rightarrow> world \<Rightarrow> ((exn + pyval list) \<times> world) option" where
  "extract_incremental_data E endpoint_name lookback_hours w =
     (case extract_all_data_from_endpoint E endpoint_name (Some 10) w of
        None \<Rightarrow> None
      | Some (Inl e, w1) \<Rightarrow> Some (Inl e, w1)
      | Some (Inr all_data, w1) \<Rightarrow>
          if all_data = [] then Some (Inr [], w1)
          else
            (let hours = (case lookback_hours of
                            None \<Rightarrow> misa_crm_incremental_lookback_hours E
                          | Some h \<Rightarrow> h);
                 cutoff_time = clock w1 - 3600 * hours
             in Some (filter_modified E cutoff_time all_data, w1)))"

text \<open>
  The vocabulary of the token and retry properties.  \<open>minted reply\<close> is the token that a
  reply of the token endpoint carries, if it carries one.  \<open>cached_credential\<close> is the
  cached token with its remaining lifetime.  \<open>token_fresh E w horizon\<close>: the cached token
  stays outside the refresh buffer for \<open>horizon\<close> more seconds.  \<open>backoff delay first j\<close>
  are the sleeps after \<open>j\<close> failed attempts numbered from \<open>first\<close>.
\<close>

definition minted :: "token_reply \<Rightarrow> string option" where
  "minted reply =
     (case reply of
        PostReply status_code (Body success_flag (Some token)) \<Rightarrow>
          if status_code = 200 \<and> success_flag then Some token else None
      | _ \<Rightarrow> None)"

definition cached_credential :: "world \<Rightarrow> (string \<times> int) option" where
  "cached_credential w =
     (case access_token w of
        None \<Rightarrow> None
      | Some token \<Rightarrow>
          if token = [] then None
          else (case token_expires_at w of
                  None \<Rightarrow> None
                | Some expires_at \<Rightarrow> Some (token, expires_at - clock w)))"

definition token_fresh :: "misa_env \<Rightarrow> world \<Rightarrow> nat \<Rightarrow> bool" where
  "token_fresh E w horizon =
     (case cached_credential w of
        None \<Rightarrow> False
      | Some (token, lifetime) \<Rightarrow> lifetime > int horizon + misa_crm_token_refresh_buffer E)"

definition backoff :: "nat \<Rightarrow> nat \<Rightarrow> nat \<Rightarrow> nat list" where
  "backoff delay first j = map (\<lambda>i. delay * (first + i + 1)) [0..<j]"

text \<open>Concrete environments and states for running the extractor.\<close>

definition demo_env :: misa_env where
  "demo_env =
     \<lparr>base_url = ''https://crm.example/api'',
      api_retry_attempts = 3, api_retry_delay = 5, etl_rate_limit_delay = 1,
      misa_crm_token_refresh_buffer = 300, misa_crm_page_size = 2, misa_crm_max_page_size = 100,
      misa_crm_incremental_lookback_hours = 24,
      post_account = (\<lambda>k. PostReply 200 (Body True (Some ''token-2''))),
      http_request = (\<lambda>k rq. if k < 2 then RequestRaises
                              else Reply 200 (Some (PDict [(''data'', PList [PInt 7])]))),
      jwt_decode = (\<lambda>token. JwtClaims (Some 5000)),
      fromisoformat = (\<lambda>s. if s = ''2020-01-01T00:00:00+00:00'' then Aware 1577836800
                            else if s = ''2020-01-01T00:00:00'' then Naive 1577836800
                            else if s = ''2026-11-02T12:00:00'' then Naive 1793620800
                            else Unparseable)\<rparr>"

definition demo_world :: world where
  "demo_world = \<lparr>clock = 1000, access_token = Some ''token-1'', token_expires_at = Some 2000,
                  token_requests = 0, data_requests = 0, sleeps = []\<rparr>"

definition demo_pages :: "nat \<Rightarrow> pyval" where
  "demo_pages p =
     (if p = 1 then PDict [(''success'', PBool True), (''data'', PList (replicate 10 (PInt 1)))]
      else PDict [(''success'', PBool True), (''data'', PList (replicate 50 (PInt 0)))])"


definition unauthorized_env :: misa_env where
  "unauthorized_env =
     demo_env\<lparr>http_request := (\<lambda>k rq. if k = 0 then Reply 401 None
                                     else if k < 3 then RequestRaises
                                     else Reply 200 (Some (PDict [(''data'', PList [PInt 7])])))\<rparr>"

definition always_401_env :: misa_env where
  "always_401_env = demo_env\<lparr>http_request := (\<lambda>k rq. Reply 401 None)\<rparr>"

definition down_env :: misa_env where
  "down_env = demo_env\<lparr>http_request := (\<lambda>k rq. RequestRaises)\<rparr>"

definition partial_env :: misa_env where
  "partial_env =
     demo_env\<lparr>http_request := (\<lambda>k rq. if k = 0
                                     then Reply 200 (Some (PDict [(''data'', PList [PInt 1, PInt 2])]))
                                     else RequestRaises)\<rparr>"

definition stale_record :: pyval where
  "stale_record = PDict [(''id'', PInt 1), (''modified_date'', PStr ''2020-01-01T00:00:00Z'')]"

definition stale_naive_record :: pyval where
  "stale_naive_record = PDict [(''id'', PInt 2), (''modified_date'', PStr ''2020-01-01T00:00:00'')]"

definition fresh_record :: pyval where
  "fresh_record = PDict [(''id'', PInt 3), (''modified_date'', PStr ''2026-11-02T12:00:00'')]"

definition stale_env :: misa_env where
  "stale_env =
     demo_env\<lparr>misa_crm_page_size := 50,
              http_request := (\<lambda>k rq. Reply 200 (Some (PDict
                 [(''data'', PList [stale_record, stale_naive_record, fresh_record])])))\<rparr>"

definition stale_world :: world where
  "stale_world = demo_world\<lparr>clock := 1793664000, token_expires_at := Some 1793700000\<rparr>"

section \<open>MISA CRM transformer (src/transformers/misa\_crm\_transformer.py)\<close>

text \<open>\<open>x.items()\<close> exists on a dict only; \<open>for x in v\<close> and \<open>len(v)\<close> need an iterable.\<close>

definition items :: "pyval \<Rightarrow> exn + row" where
  "items v = (case v of PDict d \<Rightarrow> Inr d | _ \<Rightarrow> Inl AttributeError)"








text \<open>
  \<open>transform_sale_orders_flattened\<close>.  \<open>add_prefixed\<close> is the loop
  \<open>for key, value in d.items(): flattened_row[f"{prefix}{key}"] = value\<close>.
\<close>

definition add_prefixed :: "string \<Rightarrow> row \<Rightarrow> row \<Rightarrow> row" where
  "add_prefixed pfx d flattened_row =
     fold (\<lambda>(key, value) r. AList.update (pfx @ key) value r) d flattened_row"














definition is_record :: "pyval \<Rightarrow> bool" where
  "is_record v = (case v of PDict d \<Rightarrow> distinct (map fst d) | _ \<Rightarrow> False)"

definition fields_of :: "pyval \<Rightarrow> row" where
  "fields_of v = (case v of PDict d \<Rightarrow> d | _ \<Rightarrow> [])"












section \<open>TikTok Shop transformer (src/transformers/tiktok\_shop\_transformer.py)\<close>

text \<open>
  \<open>validate_dataframe\<close>, with what it logs: a warning for an empty frame, an error for a
  missing required column, a warning (and nothing more) for null order ids, and the
  closing info line with the row and order counts.
\<close>

datatype log_level = INFO | WARNING | ERROR

definition validate_dataframe :: "dataframe \<Rightarrow> bool \<times> log_level list" where
  "validate_dataframe df =
     (if df_empty df then (False, [WARNING])
      else if missing_columns [''order_id'', ''etl_batch_id''] df \<noteq> [] then (False, [ERROR])
      else (let null_order_ids = null_count df ''order_id''
            in (True, (if null_order_ids > 0 then [WARNING] else []) @ [INFO])))"

definition null_key_frame :: dataframe where
  "null_key_frame =
     DataFrame [[(''order_id'', PNone), (''order_status'', PStr ''COMPLETED''),
                 (''etl_batch_id'', PStr ''batch-1''), (''etl_created_at'', PInt 1000),
                 (''etl_updated_at'', PInt 1000)]]"

section \<open>Orchestrator (src/orchestrators/production\_etl\_orchestrator.py)\<close>

text \<open>
  An endpoint descriptor and the entry that the cycle stores for an endpoint: its status,
  the number of records counted for it, and the optional counts and error.
\<close>

record endpoint =
  ep_name :: string
  ep_table :: string
  ep_priority :: nat

record endpoint_result =
  status :: string
  records :: nat
  extracted :: "nat option"
  transformed :: "nat option"
  error :: "exn option"

text \<open>
  The orchestrator calls its components as objects; here they are functions on a state
  \<open>'w\<close> of the outside world, and each call either raises or returns.  A theorem about
  every \<open>components\<close> value holds for the extractors, transformers and loaders above and
  for any others.  \<open>verify_data_quality\<close> catches its own exceptions and answers with the
  flag \<open>quality_check_passed\<close>.
\<close>

record 'w components =
  components_ready :: bool
  initialize_components :: "'w \<Rightarrow> bool \<times> 'w"
  misa_extract_all :: "string \<Rightarrow> nat \<Rightarrow> 'w \<Rightarrow> (exn + pyval list) \<times> 'w"
  misa_transform_sale_orders :: "pyval list \<Rightarrow> 'w \<Rightarrow> (exn + dataframe) \<times> 'w"
  misa_transform_method :: "string \<Rightarrow> pyval list \<Rightarrow> 'w \<Rightarrow> (exn + dataframe) \<times> 'w"
  misa_load :: "dataframe \<Rightarrow> string \<Rightarrow> 'w \<Rightarrow> (exn + bool) \<times> 'w"
  tiktok_extract_recent_orders :: "nat \<Rightarrow> 'w \<Rightarrow> (exn + pyval list) \<times> 'w"
  tiktok_transform :: "pyval list \<Rightarrow> 'w \<Rightarrow> (exn + dataframe) \<times> 'w"
  tiktok_load_incremental :: "dataframe \<Rightarrow> 'w \<Rightarrow> (exn + bool) \<times> 'w"
  verify_data_quality :: "'w \<Rightarrow> bool \<times> 'w"

definition MISA_MAX_PAGES_PER_CYCLE :: nat where "MISA_MAX_PAGES_PER_CYCLE = 2"
definition TIKTOK_DAYS_BACK_BUFFER :: nat where "TIKTOK_DAYS_BACK_BUFFER = 1"

definition misa_endpoints :: "endpoint list" where
  "misa_endpoints =
     [\<lparr>ep_name = ''sale_orders'', ep_table = ''sale_orders_flattened'', ep_priority = 1\<rparr>,
      \<lparr>ep_name = ''customers'', ep_table = ''customers'', ep_priority = 2\<rparr>,
      \<lparr>ep_name = ''contacts'', ep_table = ''contacts'', ep_priority = 3\<rparr>,
      \<lparr>ep_name = ''stocks'', ep_table = ''stocks'', ep_priority = 4\<rparr>,
      \<lparr>ep_name = ''products'', ep_table = ''products'', ep_priority = 5\<rparr>]"

definition no_data_result :: endpoint_result where
  "no_data_result = \<lparr>status = ''no_data'', records = 0, extracted = Some 0, transformed = Some 0, error = None\<rparr>"

definition error_result :: "exn \<Rightarrow> endpoint_result" where
  "error_result e = \<lparr>status = ''error'', records = 0, extracted = None, transformed = None, error = Some e\<rparr>"

text \<open>
  The transformation step of one endpoint: \<open>transform_sale_orders_flattened\<close> for
  \<open>sale_orders\<close>, the method \<open>transform_<name>\<close> found by \<open>getattr\<close> for the others.
\<close>

definition misa_transform ::
  "'w components \<Rightarrow> endpoint \<Rightarrow> pyval list \<Rightarrow> 'w \<Rightarrow> (exn + dataframe) \<times> 'w" where
  "misa_transform C ep raw_data w =
     (if ep_name ep = ''sale_orders'' then misa_transform_sale_orders C raw_data w
      else misa_transform_method C (ep_name ep) raw_data w)"

text \<open>
  The body of the \<open>try\<close> for one endpoint: the exception that left it, or the entry it
  stored.  \<open>process_endpoint\<close> adds the \<open>except Exception\<close> handler, \<open>process_endpoints\<close>
  is the \<open>for\<close> loop over the endpoints sorted by priority.
\<close>

definition run_pipeline :: "'w components \<Rightarrow> endpoint \<Rightarrow> 'w \<Rightarrow> (exn + endpoint_result) \<times> 'w" where
  "run_pipeline C ep w =
     (case misa_extract_all C (ep_name ep) MISA_MAX_PAGES_PER_CYCLE w of
        (Inl e, w1) \<Rightarrow> (Inl e, w1)
      | (Inr raw_data, w1) \<Rightarrow>
          if raw_data = [] then (Inr no_data_result, w1)
          else
            (case misa_transform C ep raw_data w1 of
               (Inl e, w2) \<Rightarrow> (Inl e, w2)
             | (Inr df, w2) \<Rightarrow>
                 (case misa_load C df (ep_table ep) w2 of
                    (Inl e, w3) \<Rightarrow> (Inl e, w3)
                  | (Inr ok, w3) \<Rightarrow>
                      if ok
                      then (Inr \<lparr>status = ''success'', records = len_df df,
                                 extracted = Some (length raw_data), transformed = Some (len_df df),
                                 error = None\<rparr>, w3)
                      else (Inr \<lparr>status = ''duplicate_skipped'', records = 0,
                                 extracted = Some (length raw_data), transformed = Some (len_df df),
                                 error = None\<rparr>, w3))))"

definition process_endpoint :: "'w components \<Rightarrow> endpoint \<Rightarrow> 'w \<Rightarrow> endpoint_result \<times> 'w" where
  "process_endpoint C ep w =
     (case run_pipeline C ep w of
        (Inr r, w') \<Rightarrow> (r, w')
      | (Inl e, w') \<Rightarrow> (error_result e, w'))"

fun process_endpoints ::
  "'w components \<Rightarrow> endpoint list \<Rightarrow> (string \<times> endpoint_result) list \<Rightarrow> 'w
     \<Rightarrow> (string \<times> endpoint_result) list \<times> 'w" where
  "process_endpoints C [] misa_results w = (misa_results, w)"
| "process_endpoints C (ep # eps) misa_results w =
     (case process_endpoint C ep w of
        (r, w') \<Rightarrow> process_endpoints C eps (AList.update (ep_name ep) r misa_results) w')"

definition process_misa_crm_endpoints ::
  "'w components \<Rightarrow> 'w \<Rightarrow> (string \<times> endpoint_result) list \<times> 'w" where
  "process_misa_crm_endpoints C w = process_endpoints C (sort_key ep_priority misa_endpoints) [] w"

text \<open>\<open>_process_tiktok_shop_data\<close>: one entry, under the key \<open>orders\<close>.\<close>

definition process_tiktok_shop_data ::
  "'w components \<Rightarrow> 'w \<Rightarrow> (string \<times> endpoint_result) list \<times> 'w" where
  "process_tiktok_shop_data C w =
     (case tiktok_extract_recent_orders C TIKTOK_DAYS_BACK_BUFFER w of
        (Inl e, w1) \<Rightarrow> ([(''orders'', error_result e)], w1)
      | (Inr raw_orders, w1) \<Rightarrow>
          if raw_orders = [] then ([(''orders'', no_data_result)], w1)
          else
            (case tiktok_transform C raw_orders w1 of
               (Inl e, w2) \<Rightarrow> ([(''orders'', error_result e)], w2)
             | (Inr transformed_df, w2) \<Rightarrow>
                 (case tiktok_load_incremental C transformed_df w2 of
                    (Inl e, w3) \<Rightarrow> ([(''orders'', error_result e)], w3)
                  | (Inr ok, w3) \<Rightarrow>
                      if ok
                      then ([(''orders'',
                              \<lparr>status = ''success'', records = len_df transformed_df,
                               extracted = Some (length raw_orders),
                               transformed = Some (len_df transformed_df), error = None\<rparr>)], w3)
                      else ([(''orders'',
                              \<lparr>status = ''load_failed'', records = 0,
                               extracted = Some (length raw_orders),
                               transformed = Some (len_df transformed_df), error = None\<rparr>)], w3))))"

text \<open>
  The result of a cycle.  Start and end time, duration and the metrics that the monitor
  attaches in \<open>_finalize_cycle_results\<close> are left out: they do not enter any field kept
  here.  \<open>data_quality\<close> is the flag \<open>quality_check_passed\<close> once phase 3 has run.
\<close>

record cycle_results =
  misa_crm :: "(string \<times> endpoint_result) list"
  tiktok_shop :: "(string \<times> endpoint_result) list"
  data_quality :: "bool option"
  total_records :: nat
  success :: bool
  errors :: "string list"

definition calculate_total_records :: "cycle_results \<Rightarrow> nat" where
  "calculate_total_records cr =
     sum_list (map (\<lambda>(name, endpoint_result). records endpoint_result) (misa_crm cr)) +
     (case map_of (tiktok_shop cr) ''orders'' of None \<Rightarrow> 0 | Some tiktok_result \<Rightarrow> records tiktok_result)"

definition determine_cycle_success :: "cycle_results \<Rightarrow> bool" where
  "determine_cycle_success cr =
     (if errors cr \<noteq> [] then False
      else if data_quality cr \<noteq> Some True then False
      else (\<exists>(name, result) \<in> set (misa_crm cr). status result = ''success'') \<or>
           (case map_of (tiktok_shop cr) ''orders'' of
              None \<Rightarrow> False
            | Some r \<Rightarrow> status r = ''success''))"

text \<open>
  \<open>run_production_cycle\<close>.  Components are initialised on first use; when that fails
  the cycle ends at once with the error recorded.  The three phases catch their own
  exceptions, so the handler around them has nothing to catch and is not modelled.
\<close>

definition run_production_cycle :: "'w components \<Rightarrow> 'w \<Rightarrow> cycle_results \<times> 'w" where
  "run_production_cycle C w =
     (let cycle_results = \<lparr>misa_crm = [], tiktok_shop = [], data_quality = None,
                            total_records = 0, success = False, errors = []\<rparr> in
      case (if components_ready C then (True, w) else initialize_components C w) of
        (initialised, w0) \<Rightarrow>
          if \<not> initialised
          then (cycle_results\<lparr>errors := [''Component initialization failed'']\<rparr>, w0)
          else
            (case process_misa_crm_endpoints C w0 of
               (misa_results, w1) \<Rightarrow>
                 (case process_tiktok_shop_data C w1 of
                    (tiktok_results, w2) \<Rightarrow>
                      (case verify_data_quality C w2 of
                         (quality_check_passed, w3) \<Rightarrow>
                           (let cr1 = cycle_results\<lparr>misa_crm := misa_results,
                                                      tiktok_shop := tiktok_results,
                                                      data_quality := Some quality_check_passed\<rparr>;
                                cr2 = cr1\<lparr>total_records := calculate_total_records cr1\<rparr>
                            in (cr2\<lparr>success := determine_cycle_success cr2\<rparr>, w3))))))"

text \<open>
  A concrete cycle: extraction of \<open>sale_orders\<close> raises, \<open>customers\<close> yields two records
  that load, \<open>contacts\<close> yields one record whose load answers False, the rest yield nothing.
\<close>

definition demo_components :: "string list components" where
  "demo_components =
     \<lparr>components_ready = True,
      initialize_components = (\<lambda>w. (True, w)),
      misa_extract_all = (\<lambda>name max_pages w.
         if name = ''sale_orders'' then (Inl ConnectionError, w @ [name])
         else if name = ''customers''
         then (Inr [PDict [(''id'', PInt 1)], PDict [(''id'', PInt 2)]], w @ [name])
         else if name = ''contacts'' then (Inr [PDict [(''id'', PInt 7)]], w @ [name])
         else (Inr [], w @ [name])),
      misa_transform_sale_orders = (\<lambda>raw w. (Inr (DataFrame (map (\<lambda>v. case v of PDict d \<Rightarrow> d | _ \<Rightarrow> []) raw)), w)),
      misa_transform_method = (\<lambda>name raw w. (Inr (DataFrame (map (\<lambda>v. case v of PDict d \<Rightarrow> d | _ \<Rightarrow> []) raw)), w)),
      misa_load = (\<lambda>df table w. (Inr (table \<noteq> ''contacts''), w)),
      tiktok_extract_recent_orders = (\<lambda>days w. (Inr [], w)),
      tiktok_transform = (\<lambda>raw w. (Inr empty_frame, w)),
      tiktok_load_incremental = (\<lambda>df w. (Inr True, w)),
      verify_data_quality = (\<lambda>w. (True, w))\<rparr>"

definition contacts_endpoint :: endpoint where
  "contacts_endpoint = \<lparr>ep_name = ''contacts'', ep_table = ''contacts'', ep_priority = 3\<rparr>"

section \<open>Loading an empty row set\<close>

lemma df_empty_no_rows: "df_rows df = [] \<Longrightarrow> df_empty df"
  by (simp add: df_empty_def)

text \<open>
  Claim C10.  A load that is given an empty row set answers True and leaves the database as
  it was, whatever the environment would do on a write: in the MISA loader for every
  endpoint name and every \<open>if_exists\<close>, in the TikTok Shop loader for every load mode, with
  or without validation, and for the incremental entry point.
\<close>

theorem empty_load_is_noop:
  "df_rows df = [] \<Longrightarrow>
     load_dataframe_to_staging ML df endpoint if_exists db = (True, db) \<and>
     load_orders TL df load_mode validate_before_load db' = (True, db') \<and>
     load_incremental_orders TL df db' = (True, db')"
  by (simp add: load_dataframe_to_staging_def load_orders_def load_incremental_orders_def
      df_empty_no_rows)

theorem empty_load_is_noop_witness:
  "df_rows \<lparr>df_columns = [''order_id''], df_rows = []\<rparr> = [] \<and>
   load_dataframe_to_staging demo_misa_loader \<lparr>df_columns = [''order_id''], df_rows = []\<rparr>
     ''customers'' ''append'' [[(''order_id'', PStr ''A1'')]] = (True, [[(''order_id'', PStr ''A1'')]]) \<and>
   load_orders demo_tiktok_loader \<lparr>df_columns = [''order_id''], df_rows = []\<rparr>
     ''truncate_insert'' True [[(''order_id'', PStr ''A1'')]] = (True, [[(''order_id'', PStr ''A1'')]]) \<and>
   load_incremental_orders demo_tiktok_loader \<lparr>df_columns = [''order_id''], df_rows = []\<rparr>
     [[(''order_id'', PStr ''A1'')]] = (True, [[(''order_id'', PStr ''A1'')]])"
proof -
  have h: "df_rows \<lparr>df_columns = [''order_id''], df_rows = []\<rparr> = []"
    by simp
  show ?thesis
    by (rule conjI [OF h
          empty_load_is_noop [OF h, of demo_misa_loader "''customers''" "''append''"
            "[[(''order_id'', PStr ''A1'')]]" demo_tiktok_loader "''truncate_insert''" True
            "[[(''order_id'', PStr ''A1'')]]"]])
qed

section \<open>Token acquisition and paging\<close>




lemma get_access_token_cached:
  "cached_credential w = Some (tok, life) \<Longrightarrow> life > misa_crm_token_refresh_buffer E \<Longrightarrow>
   get_access_token E False w = (Some tok, w)"
  by (auto simp: cached_credential_def get_access_token_def is_token_expired_def
      split: option.splits if_splits)


lemma get_access_token_refresh:
  assumes "\<not> (\<not> force \<and> \<not> is_token_expired E w)"
  shows "token_requests (snd (get_access_token E force w)) = Suc (token_requests w)"
    and "data_requests (snd (get_access_token E force w)) = data_requests w"
    and "clock (snd (get_access_token E force w)) = clock w"
    and "sleeps (snd (get_access_token E force w)) = sleeps w"
    and "minted (post_account E (token_requests w)) = Some tok \<Longrightarrow>
           fst (get_access_token E force w) = Some tok \<and>
           access_token (snd (get_access_token E force w)) = Some tok \<and>
           token_expires_at (snd (get_access_token E force w)) = Some (decode_token_expiry E tok w)"
    and "minted (post_account E (token_requests w)) = None \<Longrightarrow>
           fst (get_access_token E force w) = None \<and>
           access_token (snd (get_access_token E force w)) = access_token w \<and>
           token_expires_at (snd (get_access_token E force w)) = token_expires_at w"
  using assms
  by (auto simp: get_access_token_def minted_def Let_def decode_token_expiry_def
      split: token_reply.splits token_body.splits option.splits if_splits jwt_result.splits)



lemma demo_pages_records:
  "page_records (demo_pages 0) = replicate 50 (PInt 0)"
  "page_records (demo_pages 1) = replicate 10 (PInt 1)"
  by (simp_all add: page_records_def demo_pages_def)




section \<open>Retry, failure and incremental filtering\<close>

lemma get_access_token_frame:
  "data_requests (snd (get_access_token E force w)) = data_requests w"
  "clock (snd (get_access_token E force w)) = clock w"
  "sleeps (snd (get_access_token E force w)) = sleeps w"
  "token_requests w \<le> token_requests (snd (get_access_token E force w))"
  by (auto simp: get_access_token_def Let_def
      split: token_reply.splits token_body.splits option.splits if_splits)

lemma get_headers_frame:
  "data_requests (snd (get_headers E w)) = data_requests w"
  "clock (snd (get_headers E w)) = clock w"
  "sleeps (snd (get_headers E w)) = sleeps w"
  "token_requests w \<le> token_requests (snd (get_headers E w))"
proof -
  obtain t w1 where g: "get_access_token E False w = (t, w1)"
    by (cases "get_access_token E False w")
  have w1: "w1 = snd (get_access_token E False w)" by (simp add: g)
  have s: "snd (get_headers E w) = w1"
    by (simp add: get_headers_def g split: option.splits)
  show "data_requests (snd (get_headers E w)) = data_requests w"
    "clock (snd (get_headers E w)) = clock w"
    "sleeps (snd (get_headers E w)) = sleeps w"
    "token_requests w \<le> token_requests (snd (get_headers E w))"
    unfolding s w1 by (rule get_access_token_frame)+
qed

lemma sleep_frame:
  "data_requests (sleep d w) = data_requests w"
  "token_requests (sleep d w) = token_requests w"
  "clock (sleep d w) = clock w + int d"
  "sleeps (sleep d w) = sleeps w @ [d]"
  "access_token (sleep d w) = access_token w"
  "token_expires_at (sleep d w) = token_expires_at w"
  by (simp_all add: sleep_def)

lemma get_headers_fresh:
  assumes "token_fresh E w h"
  shows "\<exists>token. get_headers E w = (Inr token, w)"
proof -
  obtain token life where c: "cached_credential w = Some (token, life)"
    and l: "life > int h + misa_crm_token_refresh_buffer E"
    using assms by (auto simp: token_fresh_def split: option.splits)
  have "life > misa_crm_token_refresh_buffer E" using l by simp
  then have g: "get_access_token E False w = (Some token, w)"
    using c by (rule get_access_token_cached [rotated])
  have "token \<noteq> []" using c by (auto simp: cached_credential_def split: option.splits if_splits)
  then show ?thesis by (simp add: get_headers_def g)
qed

lemma retry_loop_exhausted:
  assumes "\<forall>k rq. http_request E k rq = RequestRaises \<or> (\<exists>b. http_request E k rq = Reply 401 b)"
  shows "fst (retry_loop E url params attempts w) = None"
proof (induction attempts arbitrary: w)
  case Nil
  show ?case by simp
next
  case (Cons attempt rest)
  obtain h w1 where gh: "get_headers E w = (h, w1)" by (cases "get_headers E w")
  show ?case
  proof (cases h)
    case (Inl e)
    then show ?thesis using gh Cons.IH by simp
  next
    case (Inr token)
    let ?rq = "\<lparr>req_url = url, req_params = params, req_token = token\<rparr>"
    have sr: "send_request E url params token w1 =
                (http_request E (data_requests w1) ?rq, w1\<lparr>data_requests := Suc (data_requests w1)\<rparr>)"
      by (simp add: send_request_def)
    from assms have "http_request E (data_requests w1) ?rq = RequestRaises \<or>
                     (\<exists>b. http_request E (data_requests w1) ?rq = Reply 401 b)" by blast
    then show ?thesis
    proof
      assume "http_request E (data_requests w1) ?rq = RequestRaises"
      then show ?thesis using gh Inr sr Cons.IH by simp
    next
      assume "\<exists>b. http_request E (data_requests w1) ?rq = Reply 401 b"
      then obtain b where "http_request E (data_requests w1) ?rq = Reply 401 b" by blast
      then show ?thesis using gh Inr sr Cons.IH by (simp split: prod.splits)
    qed
  qed
qed

lemma retry_loop_request_bound:
  "data_requests (snd (retry_loop E url params attempts w)) \<le> data_requests w + length attempts"
proof (induction attempts arbitrary: w)
  case Nil
  show ?case by simp
next
  case (Cons attempt rest)
  obtain h w1 where gh: "get_headers E w = (h, w1)" by (cases "get_headers E w")
  have d1: "data_requests w1 = data_requests w"
    using get_headers_frame(1) [of E w] by (simp add: gh)
  show ?case
  proof (cases h)
    case (Inl e)
    have "data_requests (snd (retry_loop E url params rest (sleep (api_retry_delay E * (attempt + 1)) w1)))
            \<le> data_requests (sleep (api_retry_delay E * (attempt + 1)) w1) + length rest"
      by (rule Cons.IH)
    then show ?thesis using gh Inl d1 by (simp add: sleep_frame)
  next
    case (Inr token)
    let ?w2 = "w1\<lparr>data_requests := Suc (data_requests w1)\<rparr>"
    obtain reply where sr: "send_request E url params token w1 = (reply, ?w2)"
      by (simp add: send_request_def)
    show ?thesis
    proof (cases reply)
      case RequestRaises
      have "data_requests (snd (retry_loop E url params rest (sleep (api_retry_delay E * (attempt + 1)) ?w2)))
            \<le> data_requests (sleep (api_retry_delay E * (attempt + 1)) ?w2) + length rest"
        by (rule Cons.IH)
      then show ?thesis using gh Inr sr RequestRaises d1 by (simp add: sleep_frame)
    next
      case (Reply status_code body)
      obtain refreshed w3 where ga: "get_access_token E True ?w2 = (refreshed, w3)"
        by (cases "get_access_token E True ?w2")
      have w3: "w3 = snd (get_access_token E True ?w2)" by (simp add: ga)
      have d3: "data_requests w3 = Suc (data_requests w)"
        unfolding w3 by (simp add: get_access_token_frame d1)
      have a: "data_requests (snd (retry_loop E url params rest (sleep (api_retry_delay E) w3)))
            \<le> data_requests (sleep (api_retry_delay E) w3) + length rest"
        by (rule Cons.IH)
      have b: "data_requests (snd (retry_loop E url params rest w3)) \<le> data_requests w3 + length rest"
        by (rule Cons.IH)
      show ?thesis using gh Inr sr Reply d1 a b d3 ga by (simp add: sleep_frame)
    qed
  qed
qed

lemma retry_loop_persistent_failure:
  "\<forall>k rq. k \<ge> data_requests w \<longrightarrow> http_request E k rq = RequestRaises \<Longrightarrow>
   fst (retry_loop E url params attempts w) = None \<and>
   data_requests w \<le> data_requests (snd (retry_loop E url params attempts w))"
proof (induction attempts arbitrary: w)
  case Nil
  show ?case by simp
next
  case (Cons attempt rest)
  obtain h w1 where gh: "get_headers E w = (h, w1)" by (cases "get_headers E w")
  have d1: "data_requests w1 = data_requests w"
    using get_headers_frame(1) [of E w] by (simp add: gh)
  show ?case
  proof (cases h)
    case (Inl e)
    let ?w = "sleep (api_retry_delay E * (attempt + 1)) w1"
    have "\<forall>k rq. k \<ge> data_requests ?w \<longrightarrow> http_request E k rq = RequestRaises"
      using Cons.prems by (simp add: sleep_frame d1)
    then have "fst (retry_loop E url params rest ?w) = None \<and>
               data_requests ?w \<le> data_requests (snd (retry_loop E url params rest ?w))"
      by (rule Cons.IH)
    then show ?thesis using gh Inl d1 by (simp add: sleep_frame)
  next
    case (Inr token)
    let ?w2 = "w1\<lparr>data_requests := Suc (data_requests w1)\<rparr>"
    let ?w = "sleep (api_retry_delay E * (attempt + 1)) ?w2"
    have sr: "send_request E url params token w1 = (RequestRaises, ?w2)"
      using Cons.prems by (simp add: send_request_def d1)
    have "\<forall>k rq. k \<ge> data_requests ?w \<longrightarrow> http_request E k rq = RequestRaises"
      using Cons.prems by (simp add: sleep_frame d1)
    then have "fst (retry_loop E url params rest ?w) = None \<and>
               data_requests ?w \<le> data_requests (snd (retry_loop E url params rest ?w))"
      by (rule Cons.IH)
    then show ?thesis using gh Inr sr d1 by (simp add: sleep_frame)
  qed
qed

lemma retry_loop_transient:
  "first + j < api_retry_attempts E \<Longrightarrow>
   token_fresh E w (sum_list (backoff (api_retry_delay E) first j)) \<Longrightarrow>
   (\<forall>i < j. \<forall>rq. http_request E (data_requests w + i) rq = RequestRaises) \<Longrightarrow>
   (\<forall>rq. http_request E (data_requests w + j) rq = Reply 200 body) \<Longrightarrow>
   fst (retry_loop E url params [first..<api_retry_attempts E] w) = Some body \<and>
   sleeps (snd (retry_loop E url params [first..<api_retry_attempts E] w)) =
     sleeps w @ backoff (api_retry_delay E) first j \<and>
   data_requests (snd (retry_loop E url params [first..<api_retry_attempts E] w)) =
     data_requests w + j + 1 \<and>
   token_requests (snd (retry_loop E url params [first..<api_retry_attempts E] w)) = token_requests w"
proof (induction j arbitrary: first w)
  case 0
  obtain token where gh: "get_headers E w = (Inr token, w)"
    using get_headers_fresh [OF "0.prems"(2)] by blast
  have up: "[first..<api_retry_attempts E] = first # [Suc first..<api_retry_attempts E]"
    using "0.prems"(1) by (simp add: upt_conv_Cons)
  have sr: "send_request E url params token w = (Reply 200 body, w\<lparr>data_requests := Suc (data_requests w)\<rparr>)"
    using "0.prems"(4) by (simp add: send_request_def)
  show ?case unfolding up by (simp add: gh sr backoff_def)
next
  case (Suc j)
  let ?d = "api_retry_delay E * (first + 1)"
  have bo: "backoff (api_retry_delay E) first (Suc j) = ?d # backoff (api_retry_delay E) (Suc first) j"
    by (simp add: backoff_def upt_conv_Cons map_Suc_upt [symmetric] del: upt_Suc)
  have fresh0: "token_fresh E w 0"
    using Suc.prems(2) by (auto simp: token_fresh_def split: option.splits)
  obtain token where gh: "get_headers E w = (Inr token, w)"
    using get_headers_fresh [OF fresh0] by blast
  have up: "[first..<api_retry_attempts E] = first # [Suc first..<api_retry_attempts E]"
    using Suc.prems(1) by (simp add: upt_conv_Cons)
  let ?w2 = "w\<lparr>data_requests := Suc (data_requests w)\<rparr>"
  have "\<forall>rq. http_request E (data_requests w + 0) rq = RequestRaises"
    using Suc.prems(3) by blast
  then have sr: "send_request E url params token w = (RequestRaises, ?w2)"
    by (simp add: send_request_def)
  have more: "int first < int (api_retry_attempts E) - 1" using Suc.prems(1) by simp
  let ?w' = "sleep ?d ?w2"
  have step: "retry_loop E url params [first..<api_retry_attempts E] w =
              retry_loop E url params [Suc first..<api_retry_attempts E] ?w'"
    unfolding up using more by (simp add: gh sr)
  have fresh': "token_fresh E ?w' (sum_list (backoff (api_retry_delay E) (Suc first) j))"
    using Suc.prems(2) by (auto simp: token_fresh_def bo cached_credential_def sleep_def split: option.splits if_splits)
  have p1: "Suc first + j < api_retry_attempts E" using Suc.prems(1) by simp
  have p3: "\<forall>i < j. \<forall>rq. http_request E (data_requests ?w' + i) rq = RequestRaises"
    using Suc.prems(3) by (auto simp: sleep_frame)
  have p4: "\<forall>rq. http_request E (data_requests ?w' + j) rq = Reply 200 body"
    using Suc.prems(4) by (simp add: sleep_frame)
  note IH = Suc.IH [OF p1 fresh' p3 p4]
  show ?case unfolding step using IH by (simp add: bo sleep_frame)
qed

lemma fresh_mono: "token_fresh E w h \<Longrightarrow> token_fresh E w 0"
  by (auto simp: token_fresh_def split: option.splits)

text \<open>
  Claim C7, as the code has it.  With a token that stays fresh, \<open>j\<close> raised requests
  followed by a 200 reply, \<open>j\<close> below the number of attempts, give that reply's body after
  sleeping \<open>api_retry_delay * 1, ..., api_retry_delay * j\<close>, with \<open>j + 1\<close> data requests
  and no token request.  A 401 on the first attempt forces one token request and the loop
  goes on with attempt 1 of the same \<open>api_retry_attempts\<close>, after a sleep of
  \<open>api_retry_delay\<close> if an attempt is left: the retry after a 401 is one of the configured
  attempts.  A call never sends more data requests than \<open>api_retry_attempts\<close>.  When every
  reply is an exception or a 401 the call returns None; it raises nothing.
\<close>

theorem retry_policy:
  "(\<forall>j body.
      j < api_retry_attempts E \<and>
      token_fresh E w (sum_list (backoff (api_retry_delay E) 0 j)) \<and>
      (\<forall>i < j. \<forall>rq. http_request E (data_requests w + i) rq = RequestRaises) \<and>
      (\<forall>rq. http_request E (data_requests w + j) rq = Reply 200 body) \<longrightarrow>
      fst (make_request_with_retry E url params w) = Some body \<and>
      sleeps (snd (make_request_with_retry E url params w)) =
        sleeps w @ backoff (api_retry_delay E) 0 j \<and>
      data_requests (snd (make_request_with_retry E url params w)) = data_requests w + j + 1 \<and>
      token_requests (snd (make_request_with_retry E url params w)) = token_requests w) \<and>
   (\<forall>b.
      0 < api_retry_attempts E \<and> token_fresh E w 0 \<and>
      (\<forall>rq. http_request E (data_requests w) rq = Reply 401 b) \<longrightarrow>
      make_request_with_retry E url params w =
        retry_loop E url params [1..<api_retry_attempts E]
          (let w3 = snd (get_access_token E True (w\<lparr>data_requests := Suc (data_requests w)\<rparr>))
           in if 1 < api_retry_attempts E then sleep (api_retry_delay E) w3 else w3) \<and>
      token_requests (snd (get_access_token E True (w\<lparr>data_requests := Suc (data_requests w)\<rparr>)))
        = Suc (token_requests w)) \<and>
   data_requests (snd (make_request_with_retry E url params w))
     \<le> data_requests w + api_retry_attempts E \<and>
   ((\<forall>k rq. http_request E k rq = RequestRaises \<or> (\<exists>b. http_request E k rq = Reply 401 b)) \<longrightarrow>
      fst (make_request_with_retry E url params w) = None)"
proof (intro conjI allI impI)
  fix j body
  assume a: "j < api_retry_attempts E \<and>
      token_fresh E w (sum_list (backoff (api_retry_delay E) 0 j)) \<and>
      (\<forall>i < j. \<forall>rq. http_request E (data_requests w + i) rq = RequestRaises) \<and>
      (\<forall>rq. http_request E (data_requests w + j) rq = Reply 200 body)"
  then have p1: "0 + j < api_retry_attempts E" by simp
  note T = retry_loop_transient [OF p1 a [THEN conjunct2, THEN conjunct1]
      a [THEN conjunct2, THEN conjunct2, THEN conjunct1]
      a [THEN conjunct2, THEN conjunct2, THEN conjunct2], of url params]
  show "fst (make_request_with_retry E url params w) = Some body"
    using T by (simp add: make_request_with_retry_def)
  show "sleeps (snd (make_request_with_retry E url params w)) =
        sleeps w @ backoff (api_retry_delay E) 0 j"
    using T by (simp add: make_request_with_retry_def)
  show "data_requests (snd (make_request_with_retry E url params w)) = data_requests w + j + 1"
    using T by (simp add: make_request_with_retry_def)
  show "token_requests (snd (make_request_with_retry E url params w)) = token_requests w"
    using T by (simp add: make_request_with_retry_def)
next
  fix b
  assume a: "0 < api_retry_attempts E \<and> token_fresh E w 0 \<and>
      (\<forall>rq. http_request E (data_requests w) rq = Reply 401 b)"
  obtain token where gh: "get_headers E w = (Inr token, w)"
    using get_headers_fresh a by blast
  have up: "[0..<api_retry_attempts E] = 0 # [1..<api_retry_attempts E]"
    using a by (simp add: upt_conv_Cons)
  let ?w2 = "w\<lparr>data_requests := Suc (data_requests w)\<rparr>"
  have sr: "send_request E url params token w = (Reply 401 b, ?w2)"
    using a by (simp add: send_request_def)
  show "make_request_with_retry E url params w =
        retry_loop E url params [1..<api_retry_attempts E]
          (let w3 = snd (get_access_token E True ?w2)
           in if 1 < api_retry_attempts E then sleep (api_retry_delay E) w3 else w3)"
    unfolding make_request_with_retry_def up
    by (cases "get_access_token E True ?w2") (auto simp: gh sr Let_def)
  show "token_requests (snd (get_access_token E True ?w2)) = Suc (token_requests w)"
    using get_access_token_refresh(1) [of True E ?w2] by simp
next
  show "data_requests (snd (make_request_with_retry E url params w))
     \<le> data_requests w + api_retry_attempts E"
    using retry_loop_request_bound [of E url params "[0..<api_retry_attempts E]" w]
    by (simp add: make_request_with_retry_def)
next
  assume "\<forall>k rq. http_request E k rq = RequestRaises \<or> (\<exists>b. http_request E k rq = Reply 401 b)"
  then show "fst (make_request_with_retry E url params w) = None"
    unfolding make_request_with_retry_def by (rule retry_loop_exhausted)
qed

lemmas retry_eval = make_request_with_retry_def get_headers_def get_access_token_def
  is_token_expired_def send_request_def sleep_def decode_token_expiry_def Let_def

theorem retry_policy_witness:
  "2 < api_retry_attempts demo_env \<and>
   token_fresh demo_env demo_world (sum_list (backoff (api_retry_delay demo_env) 0 2)) \<and>
   (\<forall>rq. http_request demo_env (data_requests demo_world + 0) rq = RequestRaises) \<and>
   (\<forall>rq. http_request demo_env (data_requests demo_world + 1) rq = RequestRaises) \<and>
   (\<forall>rq. http_request demo_env (data_requests demo_world + 2) rq =
           Reply 200 (Some (PDict [(''data'', PList [PInt 7])]))) \<and>
   fst (make_request_with_retry demo_env ''https://crm.example/api/Customers'' [] demo_world) =
     Some (Some (PDict [(''data'', PList [PInt 7])])) \<and>
   sleeps (snd (make_request_with_retry demo_env ''https://crm.example/api/Customers'' [] demo_world)) =
     [5, 10] \<and>
   data_requests (snd (make_request_with_retry demo_env ''https://crm.example/api/Customers'' [] demo_world)) = 3"
proof -
  have n: "2 < api_retry_attempts demo_env" by (simp add: demo_env_def)
  have bo: "backoff (api_retry_delay demo_env) 0 2 = [5, 10]"
    by (simp add: backoff_def demo_env_def upt_rec)
  have fr: "token_fresh demo_env demo_world (sum_list (backoff (api_retry_delay demo_env) 0 2))"
    unfolding bo by (simp add: token_fresh_def cached_credential_def demo_world_def demo_env_def)
  have r0: "\<forall>rq. http_request demo_env (data_requests demo_world + 0) rq = RequestRaises"
    by (simp add: demo_env_def demo_world_def)
  have r1: "\<forall>rq. http_request demo_env (data_requests demo_world + 1) rq = RequestRaises"
    by (simp add: demo_env_def demo_world_def)
  have r2: "\<forall>rq. http_request demo_env (data_requests demo_world + 2) rq =
           Reply 200 (Some (PDict [(''data'', PList [PInt 7])]))"
    by (simp add: demo_env_def demo_world_def)
  have fails: "\<forall>i < 2. \<forall>rq. http_request demo_env (data_requests demo_world + i) rq = RequestRaises"
    using r0 r1 by (auto simp: less_Suc_eq numeral_2_eq_2)
  note T = retry_policy [of demo_env demo_world "''https://crm.example/api/Customers''" "[]",
      THEN conjunct1, rule_format, OF conjI [OF n conjI [OF fr conjI [OF fails r2]]]]
  have s: "sleeps (snd (make_request_with_retry demo_env ''https://crm.example/api/Customers'' [] demo_world)) = [5, 10]"
    using T [THEN conjunct2, THEN conjunct1] by (simp add: bo demo_world_def)
  have d: "data_requests (snd (make_request_with_retry demo_env ''https://crm.example/api/Customers'' [] demo_world)) = 3"
    using T [THEN conjunct2, THEN conjunct2, THEN conjunct1] by (simp add: demo_world_def)
  show ?thesis by (intro conjI n fr r0 r1 r2 T [THEN conjunct1] s d)
qed

lemmas extract_eval = extract_all_data_from_endpoint_def extract_endpoint_data_def endpoints_def
  page_data_def contains_data_def subscript_data_def elements_def limit_reached_def

text \<open>
  Against claim C7 as stated.  Three attempts are configured.  The first request is
  answered 401, the next two raise, a fourth would be answered 200: the token is refreshed
  once, three requests are sent in all, and the result is None, so the 401 used up an
  attempt.  When every request is answered 401, the call returns None and the extraction
  of the endpoint returns an empty list: no authorization error is raised.
\<close>

theorem retry_policy_counterexample:
  "fst (make_request_with_retry unauthorized_env ''https://crm.example/api/Customers'' [] demo_world) = None \<and>
   data_requests (snd (make_request_with_retry unauthorized_env ''https://crm.example/api/Customers'' []
                         demo_world)) = 3 \<and>
   token_requests (snd (make_request_with_retry unauthorized_env ''https://crm.example/api/Customers'' []
                          demo_world)) = 1 \<and>
   sleeps (snd (make_request_with_retry unauthorized_env ''https://crm.example/api/Customers'' []
                  demo_world)) = [5, 10] \<and>
   http_request unauthorized_env 3
     \<lparr>req_url = ''https://crm.example/api/Customers'', req_params = [], req_token = ''token-2''\<rparr>
     = Reply 200 (Some (PDict [(''data'', PList [PInt 7])])) \<and>
   fst (make_request_with_retry always_401_env ''https://crm.example/api/Customers'' [] demo_world) = None \<and>
   map_option fst (extract_all_data_from_endpoint always_401_env ''customers'' (Some 2) demo_world)
     = Some (Inr [])"
proof -
  have a: "make_request_with_retry unauthorized_env ''https://crm.example/api/Customers'' [] demo_world
           = (None, \<lparr>clock = 1015, access_token = Some ''token-2'', token_expires_at = Some 5000,
                      token_requests = 1, data_requests = 3, sleeps = [5, 10]\<rparr>)"
    by (simp add: retry_eval unauthorized_env_def demo_env_def demo_world_def upt_rec)
  have b: "http_request unauthorized_env 3
     \<lparr>req_url = ''https://crm.example/api/Customers'', req_params = [], req_token = ''token-2''\<rparr>
     = Reply 200 (Some (PDict [(''data'', PList [PInt 7])]))"
    by (simp add: unauthorized_env_def)
  have c: "fst (make_request_with_retry always_401_env ''https://crm.example/api/Customers'' [] demo_world) = None"
    by (simp add: retry_eval always_401_env_def demo_env_def demo_world_def upt_rec)
  have d: "map_option fst (extract_all_data_from_endpoint always_401_env ''customers'' (Some 2) demo_world)
     = Some (Inr [])"
    unfolding extract_all_data_from_endpoint_def
    by (subst extract_loop.simps)
       (simp add: extract_eval retry_eval always_401_env_def demo_env_def demo_world_def upt_rec
          split: prod.splits)
  show ?thesis using a b c d by simp
qed

text \<open>
  Claim C8, as the code has it.  When every data request from now on raises, the request
  with retry returns None, \<open>extract_endpoint_data\<close> returns None, and the paging loop, at
  whatever page and with whatever records it has collected, returns exactly those records
  as its result: no exception leaves the extractor.  From the first page the result is the
  empty list, which the orchestrator records as \<open>no_data\<close>.
\<close>

theorem persistent_failure_is_swallowed:
  "\<forall>k rq. k \<ge> data_requests w \<longrightarrow> http_request E k rq = RequestRaises \<Longrightarrow>
   fst (make_request_with_retry E url params w) = None \<and>
   fst (extract_endpoint_data E endpoint_name page page_size w) = Inr PNone \<and>
   (\<exists>w'. extract_loop (\<lambda>page. extract_endpoint_data E endpoint_name page (misa_crm_page_size E))
           (sleep (etl_rate_limit_delay E)) (misa_crm_page_size E) max_pages page all_data w
         = Some (Inr all_data, w')) \<and>
   (\<exists>w'. extract_all_data_from_endpoint E endpoint_name max_pages w = Some (Inr [], w')) \<and>
   (\<forall>C ep w0 w1. misa_extract_all C (ep_name ep) MISA_MAX_PAGES_PER_CYCLE w0 = (Inr [], w1) \<longrightarrow>
        process_endpoint C ep w0 =
          (\<lparr>status = ''no_data'', records = 0, extracted = Some 0, transformed = Some 0,
            error = None\<rparr>, w1))"
proof -
  assume down: "\<forall>k rq. k \<ge> data_requests w \<longrightarrow> http_request E k rq = RequestRaises"
  have r: "\<And>url params. fst (make_request_with_retry E url params w) = None"
    using retry_loop_persistent_failure [OF down] by (simp add: make_request_with_retry_def)
  have e: "\<And>page page_size. fst (extract_endpoint_data E endpoint_name page page_size w) = Inr PNone"
  proof -
    fix page page_size
    show "fst (extract_endpoint_data E endpoint_name page page_size w) = Inr PNone"
    proof (cases "map_of endpoints endpoint_name")
      case None
      then show ?thesis by (simp add: extract_endpoint_data_def)
    next
      case (Some path)
      let ?params = "if endpoint_name = ''stocks'' then []
                     else [(''page'', int page), (''pageSize'', min page_size (misa_crm_max_page_size E))]"
      obtain x w1 where m: "make_request_with_retry E (base_url E @ path) ?params w = (x, w1)"
        by (cases "make_request_with_retry E (base_url E @ path) ?params w")
      have "x = None" using r [of "base_url E @ path" ?params] by (simp add: m)
      then show ?thesis using Some m by (simp add: extract_endpoint_data_def Let_def)
    qed
  qed
  have l: "\<And>page all_data.
      \<exists>w'. extract_loop (\<lambda>page. extract_endpoint_data E endpoint_name page (misa_crm_page_size E))
           (sleep (etl_rate_limit_delay E)) (misa_crm_page_size E) max_pages page all_data w
         = Some (Inr all_data, w')"
  proof -
    fix page all_data
    obtain x w1 where f: "extract_endpoint_data E endpoint_name page (misa_crm_page_size E) w = (x, w1)"
      by (cases "extract_endpoint_data E endpoint_name page (misa_crm_page_size E) w")
    have x: "x = Inr PNone" using e [of page "misa_crm_page_size E"] by (simp add: f)
    show "\<exists>w'. extract_loop (\<lambda>page. extract_endpoint_data E endpoint_name page (misa_crm_page_size E))
           (sleep (etl_rate_limit_delay E)) (misa_crm_page_size E) max_pages page all_data w
         = Some (Inr all_data, w')"
      by (subst extract_loop.simps) (simp add: f x page_data_def)
  qed
  have o: "\<forall>C ep w0 w1. misa_extract_all C (ep_name ep) MISA_MAX_PAGES_PER_CYCLE w0 = (Inr [], w1) \<longrightarrow>
        process_endpoint C ep w0 =
          (\<lparr>status = ''no_data'', records = 0, extracted = Some 0, transformed = Some 0,
            error = None\<rparr>, w1)"
    by (simp add: process_endpoint_def run_pipeline_def no_data_result_def)
  show ?thesis
    using r [of url params] e [of page page_size] l [of page all_data] l [of 0 "[]"] o
    unfolding extract_all_data_from_endpoint_def by (intro conjI)
qed

theorem persistent_failure_is_swallowed_witness:
  "(\<forall>k rq. http_request down_env k rq = RequestRaises) \<and>
   fst (make_request_with_retry down_env ''https://crm.example/api/Customers'' [] demo_world) = None \<and>
   (\<exists>w'. extract_loop (\<lambda>page. extract_endpoint_data down_env ''customers'' page (misa_crm_page_size down_env))
           (sleep (etl_rate_limit_delay down_env)) (misa_crm_page_size down_env) (Some 2) 1
           [PInt 1, PInt 2] demo_world
         = Some (Inr [PInt 1, PInt 2], w')) \<and>
   (\<exists>w'. extract_all_data_from_endpoint down_env ''customers'' (Some 2) demo_world = Some (Inr [], w'))"
proof -
  have h: "\<forall>k rq. http_request down_env k rq = RequestRaises"
    by (simp add: down_env_def)
  then have h': "\<forall>k rq. k \<ge> data_requests demo_world \<longrightarrow> http_request down_env k rq = RequestRaises"
    by simp
  note T = persistent_failure_is_swallowed [OF h', of "''https://crm.example/api/Customers''" "[]"
      "''customers''" 1 2 "Some 2" "[PInt 1, PInt 2]"]
  show ?thesis
    by (intro conjI h T [THEN conjunct1] T [THEN conjunct2, THEN conjunct2, THEN conjunct1]
        T [THEN conjunct2, THEN conjunct2, THEN conjunct2, THEN conjunct1])
qed

text \<open>
  Against claim C8 as stated.  The first page is served in full and every later request
  raises: the extraction returns the two records of the first page as an ordinary result.
  When every request raises it returns the empty list.  Neither is an error.
\<close>

theorem persistent_failure_counterexample:
  "map_option fst (extract_all_data_from_endpoint partial_env ''customers'' (Some 2) demo_world)
     = Some (Inr [PInt 1, PInt 2]) \<and>
   map_option fst (extract_all_data_from_endpoint down_env ''customers'' (Some 2) demo_world)
     = Some (Inr [])"
proof -
  have a: "map_option fst (extract_all_data_from_endpoint partial_env ''customers'' (Some 2) demo_world)
     = Some (Inr [PInt 1, PInt 2])"
    unfolding extract_all_data_from_endpoint_def
    apply (subst extract_loop.simps)
    apply (simp add: extract_eval retry_eval partial_env_def demo_env_def demo_world_def upt_rec)
    apply (subst extract_loop.simps)
    apply (simp add: extract_eval retry_eval partial_env_def demo_env_def demo_world_def upt_rec)
    done
  have b: "map_option fst (extract_all_data_from_endpoint down_env ''customers'' (Some 2) demo_world)
     = Some (Inr [])"
    unfolding extract_all_data_from_endpoint_def
    by (subst extract_loop.simps)
       (simp add: extract_eval retry_eval down_env_def demo_env_def demo_world_def upt_rec)
  show ?thesis using a b by simp
qed

text \<open>
  Claim C5.  The filter at a failing input.  The clock reads 2026-11-03 00:00:00 and the
  lookback is 24 hours.  Three records are extracted: one last modified on
  2020-01-01T00:00:00Z, one on 2020-01-01T00:00:00 with no zone, one on 2026-11-02T12:00:00.
  All three timestamps parse.  The record without a zone that is six years old is
  dropped, the recent one is kept, and the six-year-old record whose timestamp ends in
  \<open>Z\<close> is kept as well: its parsed time is timezone-aware, the comparison with the naive
  cutoff raises, and the bare \<open>except\<close> meant for unparseable dates keeps the record.
\<close>

theorem incremental_keeps_stale_aware_record:
  "fromisoformat stale_env (replace_Z ''2020-01-01T00:00:00Z'') = Aware 1577836800 \<and>
   fromisoformat stale_env (replace_Z ''2020-01-01T00:00:00'') = Naive 1577836800 \<and>
   (1577836800 :: int) < clock stale_world - 3600 * misa_crm_incremental_lookback_hours stale_env \<and>
   filter_modified stale_env (clock stale_world - 3600 * misa_crm_incremental_lookback_hours stale_env)
     [stale_record, stale_naive_record, fresh_record] = Inr [stale_record, fresh_record] \<and>
   map_option fst (extract_incremental_data stale_env ''customers'' None stale_world)
     = Some (Inr [stale_record, fresh_record])"
proof -
  have p1: "fromisoformat stale_env (replace_Z ''2020-01-01T00:00:00Z'') = Aware 1577836800"
    by (simp add: stale_env_def demo_env_def replace_Z_def)
  have p2: "fromisoformat stale_env (replace_Z ''2020-01-01T00:00:00'') = Naive 1577836800"
    by (simp add: stale_env_def demo_env_def replace_Z_def)
  have p3: "(1577836800 :: int) < clock stale_world - 3600 * misa_crm_incremental_lookback_hours stale_env"
    by (simp add: stale_env_def demo_env_def stale_world_def demo_world_def)
  have p4: "filter_modified stale_env (clock stale_world - 3600 * misa_crm_incremental_lookback_hours stale_env)
     [stale_record, stale_naive_record, fresh_record] = Inr [stale_record, fresh_record]"
    by (simp add: includes_record_def stale_record_def stale_naive_record_def fresh_record_def
        dict_get_def replace_Z_def stale_env_def demo_env_def stale_world_def demo_world_def)
  have all: "extract_all_data_from_endpoint stale_env ''customers'' (Some 10) stale_world =
     Some (Inr [stale_record, stale_naive_record, fresh_record],
           stale_world\<lparr>data_requests := 1\<rparr>)"
    unfolding extract_all_data_from_endpoint_def
    by (subst extract_loop.simps)
       (simp add: extract_eval retry_eval stale_env_def demo_env_def stale_world_def demo_world_def
          upt_rec)
  have p5: "map_option fst (extract_incremental_data stale_env ''customers'' None stale_world)
     = Some (Inr [stale_record, fresh_record])"
  proof -
    have "extract_incremental_data stale_env ''customers'' None stale_world =
       Some (filter_modified stale_env
               (clock stale_world - 3600 * misa_crm_incremental_lookback_hours stale_env)
               [stale_record, stale_naive_record, fresh_record],
             stale_world\<lparr>data_requests := 1\<rparr>)"
      by (simp add: extract_incremental_data_def all Let_def del: filter_modified.simps)
    then show ?thesis unfolding p4 by simp
  qed
  show ?thesis by (intro conjI p1 p2 p3 p4 p5)
qed

section \<open>Flattening of sale orders\<close>




lemma add_prefixed_keys:
  "fst ` set (add_prefixed p d r) = fst ` set r \<union> (\<lambda>k. p @ k) ` fst ` set d"
  unfolding add_prefixed_def
proof (induction d arbitrary: r)
  case Nil then show ?case by simp
next
  case (Cons a d)
  obtain k v where a: "a = (k, v)" by (cases a)
  show ?case by (simp add: a Cons.IH dom_update [unfolded dom_map_of_conv_image_fst] insert_commute)
qed


lemma is_record_items: "is_record v \<Longrightarrow> items v = Inr (fields_of v)"
  by (cases v) (simp_all add: is_record_def items_def fields_of_def)

































section \<open>Validation of a frame with a null order id\<close>

text \<open>
  Claim C4.  A frame of one row whose \<open>order_id\<close> is null, with every required column
  present: the transformer's \<open>validate_dataframe\<close> logs a warning and answers True, while
  the loader's \<open>_validate_dataframe\<close> answers False on the same frame.
\<close>

theorem validate_accepts_null_order_id:
  "null_count null_key_frame ''order_id'' = 1 \<and>
   validate_dataframe null_key_frame = (True, [WARNING, INFO]) \<and>
   loader_validate_dataframe demo_tiktok_loader null_key_frame = False"
  by (simp add: validate_dataframe_def loader_validate_dataframe_def null_key_frame_def
      DataFrame_def first_seen_def cell_def df_empty_def missing_columns_def null_count_def
      isnull_def Let_def)

section \<open>Per-endpoint failure isolation in the orchestrator\<close>

lemma sorted_eps: "sort_key ep_priority misa_endpoints = misa_endpoints"
  by (simp add: misa_endpoints_def)

lemma keys_loop: "distinct (map ep_name eps) \<Longrightarrow> set (map ep_name eps) \<inter> fst ` set acc = {} \<Longrightarrow>
  map fst (fst (process_endpoints C eps acc w)) = map fst acc @ map ep_name eps"
proof (induction eps arbitrary: acc w)
  case Nil then show ?case by simp
next
  case (Cons ep eps)
  obtain r w' where p: "process_endpoint C ep w = (r, w')" by (cases "process_endpoint C ep w")
  have notin: "ep_name ep \<notin> fst ` set acc" using Cons.prems(2) by auto
  have upd: "AList.update (ep_name ep) r acc = acc @ [(ep_name ep, r)]"
    using notin by (induction acc) auto
  have "map fst (fst (process_endpoints C eps (acc @ [(ep_name ep, r)]) w')) = map fst (acc @ [(ep_name ep, r)]) @ map ep_name eps"
    using Cons.prems by (intro Cons.IH) auto
  then show ?case by (simp add: p upd)
qed

lemma loop_keeps: "k \<notin> ep_name ` set eps \<Longrightarrow>
   map_of (fst (process_endpoints C eps acc w)) k = map_of acc k"
proof (induction eps arbitrary: acc w)
  case Nil then show ?case by simp
next
  case (Cons ep eps)
  obtain r w' where p: "process_endpoint C ep w = (r, w')" by (cases "process_endpoint C ep w")
  have "map_of (fst (process_endpoints C eps (AList.update (ep_name ep) r acc) w')) k
        = map_of (AList.update (ep_name ep) r acc) k"
    using Cons.prems by (intro Cons.IH) auto
  then show ?case using Cons.prems by (simp add: p update_conv')
qed

lemma loop_entry: "distinct (map ep_name eps) \<Longrightarrow> ep \<in> set eps \<Longrightarrow>
   \<exists>w'. map_of (fst (process_endpoints C eps acc w)) (ep_name ep) = Some (fst (process_endpoint C ep w'))"
proof (induction eps arbitrary: acc w)
  case Nil then show ?case by simp
next
  case (Cons x eps)
  obtain r w' where p: "process_endpoint C x w = (r, w')" by (cases "process_endpoint C x w")
  show ?case
  proof (cases "ep = x")
    case True
    have "ep_name x \<notin> ep_name ` set eps" using Cons.prems(1) by auto
    then have "map_of (fst (process_endpoints C eps (AList.update (ep_name x) r acc) w')) (ep_name x)
               = map_of (AList.update (ep_name x) r acc) (ep_name x)"
      by (rule loop_keeps)
    then have "map_of (fst (process_endpoints C (x # eps) acc w)) (ep_name x) = Some (fst (process_endpoint C x w))"
      by (simp add: p update_conv')
    then show ?thesis using True by blast
  next
    case False
    then have "ep \<in> set eps" using Cons.prems(2) by simp
    moreover have "distinct (map ep_name eps)" using Cons.prems(1) by simp
    ultimately obtain w'' where
      "map_of (fst (process_endpoints C eps (AList.update (ep_name x) r acc) w')) (ep_name ep)
         = Some (fst (process_endpoint C ep w''))"
      using Cons.IH by blast
    then show ?thesis by (auto simp: p)
  qed
qed

lemma set_update_subset: "set (AList.update k v al) \<subseteq> insert (k, v) (set al)"
  by (induction al) auto

lemma loop_all: "(\<And>ep w. P (fst (process_endpoint C ep w))) \<Longrightarrow> (\<forall>(k, r) \<in> set acc. P r) \<Longrightarrow>
   \<forall>(k, r) \<in> set (fst (process_endpoints C eps acc w)). P r"
proof (induction eps arbitrary: acc w)
  case Nil then show ?case by simp
next
  case (Cons ep eps)
  obtain r w' where p: "process_endpoint C ep w = (r, w')" by (cases "process_endpoint C ep w")
  have Pr: "P r" using Cons.prems(1)[of ep w] by (simp add: p)
  have "\<forall>(k, r) \<in> set (AList.update (ep_name ep) r acc). P r"
    using Pr Cons.prems(2) set_update_subset[of "ep_name ep" r acc] by auto
  then have "\<forall>(k, r) \<in> set (fst (process_endpoints C eps (AList.update (ep_name ep) r acc) w')). P r"
    using Cons.prems(1) by (intro Cons.IH) auto
  then show ?case by (simp add: p)
qed

lemma process_endpoint_status:
  "status (fst (process_endpoint C ep w)) \<in> {''success'', ''no_data'', ''duplicate_skipped'', ''error''}"
  by (simp add: process_endpoint_def run_pipeline_def no_data_result_def error_result_def
      split: prod.splits sum.splits if_splits)

lemma process_endpoint_records:
  "status (fst (process_endpoint C ep w)) \<noteq> ''success'' \<longrightarrow> records (fst (process_endpoint C ep w)) = 0"
  by (simp add: process_endpoint_def run_pipeline_def no_data_result_def error_result_def
      split: prod.splits sum.splits if_splits)

lemma tiktok_records:
  "\<forall>(k, r) \<in> set (fst (process_tiktok_shop_data C w)). status r \<noteq> ''success'' \<longrightarrow> records r = 0"
  by (simp add: process_tiktok_shop_data_def no_data_result_def error_result_def
      split: prod.splits sum.splits if_splits)

lemma tiktok_keys: "map fst (fst (process_tiktok_shop_data C w)) = [''orders'']"
  by (simp add: process_tiktok_shop_data_def split: prod.splits sum.splits if_splits)

lemma sum_success_only:
  "\<forall>(k, r) \<in> set xs. status r \<noteq> ''success'' \<longrightarrow> records r = 0 \<Longrightarrow>
   sum_list (map (\<lambda>(k, r). records r) xs)
     = sum_list (map (\<lambda>(k, r). records r) (filter (\<lambda>(k, r). status r = ''success'') xs))"
  by (induction xs) auto

lemma names: "map ep_name misa_endpoints = [''sale_orders'', ''customers'', ''contacts'', ''stocks'', ''products'']"
  by (simp add: misa_endpoints_def)

lemma misa_keys: "map fst (fst (process_misa_crm_endpoints C w)) = [''sale_orders'', ''customers'', ''contacts'', ''stocks'', ''products'']"
proof -
  show ?thesis
    using keys_loop[of misa_endpoints "[]" C w]
    by (simp add: process_misa_crm_endpoints_def sorted_eps names)
qed

lemma misa_entry: "ep \<in> set misa_endpoints \<Longrightarrow> \<exists>w'. map_of (fst (process_misa_crm_endpoints C w)) (ep_name ep) = Some (fst (process_endpoint C ep w'))"
  unfolding process_misa_crm_endpoints_def sorted_eps
  by (rule loop_entry) (simp_all add: names)

lemma misa_all: "(\<And>ep w. P (fst (process_endpoint C ep w))) \<Longrightarrow> \<forall>(k, r) \<in> set (fst (process_misa_crm_endpoints C w)). P r"
  unfolding process_misa_crm_endpoints_def by (rule loop_all) simp_all

lemma cycle_fields:
  assumes "components_ready C \<or> fst (initialize_components C w)"
  shows "\<exists>w0 w1. misa_crm (fst (run_production_cycle C w)) = fst (process_misa_crm_endpoints C w0)
     \<and> tiktok_shop (fst (run_production_cycle C w)) = fst (process_tiktok_shop_data C w1)
     \<and> total_records (fst (run_production_cycle C w)) = calculate_total_records (fst (run_production_cycle C w))"
proof -
  obtain w0 where i: "(if components_ready C then (True, w) else initialize_components C w) = (True, w0)"
  proof (cases "components_ready C")
    case True
    then show ?thesis using that by simp
  next
    case False
    then have "fst (initialize_components C w)" using assms by simp
    then show ?thesis using that False by (cases "initialize_components C w") simp
  qed
  obtain m w1 where m: "process_misa_crm_endpoints C w0 = (m, w1)" by (cases "process_misa_crm_endpoints C w0")
  obtain t w2 where t: "process_tiktok_shop_data C w1 = (t, w2)" by (cases "process_tiktok_shop_data C w1")
  obtain q w3 where q: "verify_data_quality C w2 = (q, w3)" by (cases "verify_data_quality C w2")
  have "misa_crm (fst (run_production_cycle C w)) = fst (process_misa_crm_endpoints C w0)"
    by (simp add: run_production_cycle_def i m t q Let_def)
  moreover have "tiktok_shop (fst (run_production_cycle C w)) = fst (process_tiktok_shop_data C w1)"
    by (simp add: run_production_cycle_def i m t q Let_def)
  moreover have "total_records (fst (run_production_cycle C w)) = calculate_total_records (fst (run_production_cycle C w))"
    by (simp add: run_production_cycle_def i m t q Let_def calculate_total_records_def)
  ultimately show ?thesis by blast
qed

lemma total_split:
  assumes "map fst t = [''orders'']"
  shows "(case map_of t ''orders'' of None \<Rightarrow> 0 | Some r \<Rightarrow> records r) = sum_list (map (\<lambda>(k, r). records r) t)"
proof -
  obtain r where "t = [(''orders'', r)]" using assms by (cases t) auto
  then show ?thesis by simp
qed

text \<open>
  Claim C2.  In a cycle whose components are initialised, whatever the extractor, the
  transformers and the loader do (each may raise at any point), the MISA results hold an
  entry for each of the five endpoints, in priority order; each entry is the outcome of
  that endpoint's own pipeline; a pipeline that raised is recorded as status \<open>error\<close> with
  0 records; and \<open>total_records\<close> of the cycle result is the sum of the record counts of
  the entries whose status is \<open>success\<close>.
\<close>

theorem endpoint_failure_is_isolated:
  "components_ready C \<or> fst (initialize_components C w) \<Longrightarrow>
   (let R = fst (run_production_cycle C w) in
      map fst (misa_crm R) = [''sale_orders'', ''customers'', ''contacts'', ''stocks'', ''products''] \<and>
      (\<forall>ep \<in> set misa_endpoints. \<exists>w'.
          map_of (misa_crm R) (ep_name ep) = Some (fst (process_endpoint C ep w'))) \<and>
      (\<forall>ep w' e. fst (run_pipeline C ep w') = Inl e \<longrightarrow>
          fst (process_endpoint C ep w') =
            \<lparr>status = ''error'', records = 0, extracted = None, transformed = None, error = Some e\<rparr>) \<and>
      total_records R =
        sum_list (map (\<lambda>(name, r). records r)
                    (filter (\<lambda>(name, r). status r = ''success'') (misa_crm R @ tiktok_shop R))))"
proof -
  assume init: "components_ready C \<or> fst (initialize_components C w)"
  define R where "R = fst (run_production_cycle C w)"
  obtain w0 w1 where m: "misa_crm R = fst (process_misa_crm_endpoints C w0)"
    and t: "tiktok_shop R = fst (process_tiktok_shop_data C w1)"
    and tot: "total_records R = calculate_total_records R"
    using cycle_fields[OF init] unfolding R_def by blast
  have keys: "map fst (misa_crm R) = [''sale_orders'', ''customers'', ''contacts'', ''stocks'', ''products'']"
    by (simp add: m misa_keys)
  have entries: "\<forall>ep \<in> set misa_endpoints. \<exists>w'.
          map_of (misa_crm R) (ep_name ep) = Some (fst (process_endpoint C ep w'))"
  proof
    fix ep assume "ep \<in> set misa_endpoints"
    then show "\<exists>w'. map_of (misa_crm R) (ep_name ep) = Some (fst (process_endpoint C ep w'))"
      unfolding m by (rule misa_entry)
  qed
  have caught: "\<forall>ep w' e. fst (run_pipeline C ep w') = Inl e \<longrightarrow>
          fst (process_endpoint C ep w') =
            \<lparr>status = ''error'', records = 0, extracted = None, transformed = None, error = Some e\<rparr>"
    by (auto simp: process_endpoint_def error_result_def split: prod.splits sum.splits)
  have zero_m: "\<forall>(k, r) \<in> set (misa_crm R). status r \<noteq> ''success'' \<longrightarrow> records r = 0"
    unfolding m by (rule misa_all) (rule process_endpoint_records)
  have zero_t: "\<forall>(k, r) \<in> set (tiktok_shop R). status r \<noteq> ''success'' \<longrightarrow> records r = 0"
    unfolding t by (rule tiktok_records)
  have "total_records R = sum_list (map (\<lambda>(k, r). records r) (misa_crm R)) + sum_list (map (\<lambda>(k, r). records r) (tiktok_shop R))"
  proof -
    have "map fst (tiktok_shop R) = [''orders'']" unfolding t by (rule tiktok_keys)
    then show ?thesis by (simp add: tot calculate_total_records_def total_split)
  qed
  also have "\<dots> = sum_list (map (\<lambda>(k, r). records r) (filter (\<lambda>(k, r). status r = ''success'') (misa_crm R)))
      + sum_list (map (\<lambda>(k, r). records r) (filter (\<lambda>(k, r). status r = ''success'') (tiktok_shop R)))"
    using sum_success_only[OF zero_m] sum_success_only[OF zero_t] by simp
  finally have total: "total_records R = sum_list (map (\<lambda>(name, r). records r)
                    (filter (\<lambda>(name, r). status r = ''success'') (misa_crm R @ tiktok_shop R)))"
    by simp
  show ?thesis unfolding Let_def R_def [symmetric] by (intro conjI keys entries caught total)
qed

lemmas demo_eval = run_production_cycle_def demo_components_def process_misa_crm_endpoints_def sorted_eps
     misa_endpoints_def process_endpoint_def run_pipeline_def misa_transform_def
     MISA_MAX_PAGES_PER_CYCLE_def
     process_tiktok_shop_data_def no_data_result_def error_result_def DataFrame_def len_df_def
     calculate_total_records_def determine_cycle_success_def first_seen_def cell_def

theorem endpoint_failure_is_isolated_witness:
  "components_ready demo_components \<and>
   (let R = fst (run_production_cycle demo_components []) in
      map fst (misa_crm R) = [''sale_orders'', ''customers'', ''contacts'', ''stocks'', ''products''] \<and>
      (\<forall>ep \<in> set misa_endpoints. \<exists>w'.
          map_of (misa_crm R) (ep_name ep) = Some (fst (process_endpoint demo_components ep w'))) \<and>
      (\<forall>ep w' e. fst (run_pipeline demo_components ep w') = Inl e \<longrightarrow>
          fst (process_endpoint demo_components ep w') =
            \<lparr>status = ''error'', records = 0, extracted = None, transformed = None, error = Some e\<rparr>) \<and>
      total_records R =
        sum_list (map (\<lambda>(name, r). records r)
                    (filter (\<lambda>(name, r). status r = ''success'') (misa_crm R @ tiktok_shop R))) \<and>
      map_of (misa_crm R) ''sale_orders'' =
        Some \<lparr>status = ''error'', records = 0, extracted = None, transformed = None,
              error = Some ConnectionError\<rparr> \<and>
      map_of (misa_crm R) ''customers'' =
        Some \<lparr>status = ''success'', records = 2, extracted = Some 2, transformed = Some 2,
              error = None\<rparr> \<and>
      total_records R = 2)"
proof -
  have ready: "components_ready demo_components \<or> fst (initialize_components demo_components [])"
    by (simp add: demo_components_def)
  have general: "let R = fst (run_production_cycle demo_components []) in
      map fst (misa_crm R) = [''sale_orders'', ''customers'', ''contacts'', ''stocks'', ''products''] \<and>
      (\<forall>ep \<in> set misa_endpoints. \<exists>w'.
          map_of (misa_crm R) (ep_name ep) = Some (fst (process_endpoint demo_components ep w'))) \<and>
      (\<forall>ep w' e. fst (run_pipeline demo_components ep w') = Inl e \<longrightarrow>
          fst (process_endpoint demo_components ep w') =
            \<lparr>status = ''error'', records = 0, extracted = None, transformed = None, error = Some e\<rparr>) \<and>
      total_records R =
        sum_list (map (\<lambda>(name, r). records r)
                    (filter (\<lambda>(name, r). status r = ''success'') (misa_crm R @ tiktok_shop R)))"
    using endpoint_failure_is_isolated [OF ready] .
  have e1: "map_of (misa_crm (fst (run_production_cycle demo_components []))) ''sale_orders'' =
        Some \<lparr>status = ''error'', records = 0, extracted = None, transformed = None,
              error = Some ConnectionError\<rparr>"
    by (simp add: demo_eval)
  have e2: "map_of (misa_crm (fst (run_production_cycle demo_components []))) ''customers'' =
        Some \<lparr>status = ''success'', records = 2, extracted = Some 2, transformed = Some 2,
              error = None\<rparr>"
    by (simp add: demo_eval)
  have e3: "total_records (fst (run_production_cycle demo_components [])) = 2"
    by (simp add: demo_eval)
  have r: "components_ready demo_components" by (simp add: demo_components_def)
  note g = general [unfolded Let_def]
  show ?thesis
    unfolding Let_def
    by (intro conjI r e1 e2 e3 g [THEN conjunct1] g [THEN conjunct2, THEN conjunct1]
        g [THEN conjunct2, THEN conjunct2, THEN conjunct1]
        g [THEN conjunct2, THEN conjunct2, THEN conjunct2])
qed

text \<open>
  Claim C9.  When the loader answers False for a MISA endpoint, whatever the cause, the
  endpoint is recorded as \<open>duplicate_skipped\<close> with 0 loaded records; the cycle still
  holds an entry for every endpoint; and no MISA entry ever has a status outside
  \<open>success\<close>, \<open>no_data\<close>, \<open>duplicate_skipped\<close>, \<open>error\<close>: in particular none is
  \<open>load_failed\<close>, the status that the TikTok Shop branch uses for the same situation.
\<close>

theorem misa_load_failure_is_duplicate_skipped:
  "(\<forall>ep w raw_data w1 df w2 w3.
       misa_extract_all C (ep_name ep) MISA_MAX_PAGES_PER_CYCLE w = (Inr raw_data, w1) \<and>
       raw_data \<noteq> [] \<and>
       misa_transform C ep raw_data w1 = (Inr df, w2) \<and>
       misa_load C df (ep_table ep) w2 = (Inr False, w3) \<longrightarrow>
       process_endpoint C ep w =
         (\<lparr>status = ''duplicate_skipped'', records = 0, extracted = Some (length raw_data),
           transformed = Some (len_df df), error = None\<rparr>, w3)) \<and>
   map fst (fst (process_misa_crm_endpoints C w0)) =
     [''sale_orders'', ''customers'', ''contacts'', ''stocks'', ''products''] \<and>
   (\<forall>ep \<in> set misa_endpoints. \<exists>w'.
       map_of (fst (process_misa_crm_endpoints C w0)) (ep_name ep) = Some (fst (process_endpoint C ep w'))) \<and>
   (\<forall>(name, r) \<in> set (fst (process_misa_crm_endpoints C w0)).
       status r \<in> {''success'', ''no_data'', ''duplicate_skipped'', ''error''} \<and>
       status r \<noteq> ''load_failed'')"
proof -
  have a: "\<forall>ep w raw_data w1 df w2 w3.
       misa_extract_all C (ep_name ep) MISA_MAX_PAGES_PER_CYCLE w = (Inr raw_data, w1) \<and>
       raw_data \<noteq> [] \<and>
       misa_transform C ep raw_data w1 = (Inr df, w2) \<and>
       misa_load C df (ep_table ep) w2 = (Inr False, w3) \<longrightarrow>
       process_endpoint C ep w =
         (\<lparr>status = ''duplicate_skipped'', records = 0, extracted = Some (length raw_data),
           transformed = Some (len_df df), error = None\<rparr>, w3)"
    by (simp add: process_endpoint_def run_pipeline_def misa_transform_def)
  have b: "\<forall>ep \<in> set misa_endpoints. \<exists>w'.
       map_of (fst (process_misa_crm_endpoints C w0)) (ep_name ep) = Some (fst (process_endpoint C ep w'))"
  proof
    fix ep assume "ep \<in> set misa_endpoints"
    then show "\<exists>w'. map_of (fst (process_misa_crm_endpoints C w0)) (ep_name ep) = Some (fst (process_endpoint C ep w'))"
      by (rule misa_entry)
  qed
  have c: "\<forall>(name, r) \<in> set (fst (process_misa_crm_endpoints C w0)).
       status r \<in> {''success'', ''no_data'', ''duplicate_skipped'', ''error''} \<and>
       status r \<noteq> ''load_failed''"
  proof (rule misa_all)
    fix ep w
    show "status (fst (process_endpoint C ep w)) \<in> {''success'', ''no_data'', ''duplicate_skipped'', ''error''} \<and>
       status (fst (process_endpoint C ep w)) \<noteq> ''load_failed''"
      using process_endpoint_status[of C ep w] by auto
  qed
  show ?thesis by (intro conjI a misa_keys b c)
qed

theorem misa_load_failure_is_duplicate_skipped_witness:
  "misa_extract_all demo_components (ep_name contacts_endpoint) MISA_MAX_PAGES_PER_CYCLE []
     = (Inr [PDict [(''id'', PInt 7)]], [''contacts'']) \<and>
   [PDict [(''id'', PInt 7)]] \<noteq> [] \<and>
   misa_transform demo_components contacts_endpoint [PDict [(''id'', PInt 7)]] [''contacts'']
     = (Inr (DataFrame [[(''id'', PInt 7)]]), [''contacts'']) \<and>
   misa_load demo_components (DataFrame [[(''id'', PInt 7)]]) (ep_table contacts_endpoint) [''contacts'']
     = (Inr False, [''contacts'']) \<and>
   process_endpoint demo_components contacts_endpoint [] =
     (\<lparr>status = ''duplicate_skipped'', records = 0, extracted = Some 1, transformed = Some 1,
       error = None\<rparr>, [''contacts'']) \<and>
   contacts_endpoint \<in> set misa_endpoints \<and>
   map_of (fst (process_misa_crm_endpoints demo_components [])) ''contacts'' =
     Some \<lparr>status = ''duplicate_skipped'', records = 0, extracted = Some 1, transformed = Some 1,
           error = None\<rparr>"
proof -
  have h1: "misa_extract_all demo_components (ep_name contacts_endpoint) MISA_MAX_PAGES_PER_CYCLE []
     = (Inr [PDict [(''id'', PInt 7)]], [''contacts''])"
    by (simp add: demo_components_def contacts_endpoint_def)
  have h2: "misa_transform demo_components contacts_endpoint [PDict [(''id'', PInt 7)]] [''contacts'']
     = (Inr (DataFrame [[(''id'', PInt 7)]]), [''contacts''])"
    by (simp add: demo_components_def contacts_endpoint_def misa_transform_def)
  have h3: "misa_load demo_components (DataFrame [[(''id'', PInt 7)]]) (ep_table contacts_endpoint) [''contacts'']
     = (Inr False, [''contacts''])"
    by (simp add: demo_components_def contacts_endpoint_def)
  have h0: "[PDict [(''id'', PInt 7)]] \<noteq> []" by simp
  have len: "len_df (DataFrame [[(''id'', PInt 7)]]) = 1"
    by (simp add: len_df_def DataFrame_def Let_def)
  have "process_endpoint demo_components contacts_endpoint [] =
     (\<lparr>status = ''duplicate_skipped'', records = 0,
       extracted = Some (length [PDict [(''id'', PInt 7)]]),
       transformed = Some (len_df (DataFrame [[(''id'', PInt 7)]])), error = None\<rparr>, [''contacts''])"
    by (rule misa_load_failure_is_duplicate_skipped [of demo_components "[]", THEN conjunct1,
          rule_format, OF conjI [OF h1 conjI [OF h0 conjI [OF h2 h3]]]])
  then have p: "process_endpoint demo_components contacts_endpoint [] =
     (\<lparr>status = ''duplicate_skipped'', records = 0, extracted = Some 1, transformed = Some 1,
       error = None\<rparr>, [''contacts''])"
    by (simp add: len)
  have m: "contacts_endpoint \<in> set misa_endpoints"
    by (simp add: misa_endpoints_def contacts_endpoint_def)
  have c: "map_of (fst (process_misa_crm_endpoints demo_components [])) ''contacts'' =
     Some \<lparr>status = ''duplicate_skipped'', records = 0, extracted = Some 1, transformed = Some 1,
           error = None\<rparr>"
    by (simp add: demo_eval)
  show ?thesis by (intro conjI h1 h0 h2 h3 p m c)
qed

end
